theory Spec2Isabelle
  imports Complex_Main
begin

section \<open>Python strings\<close>

text \<open>
  A Python \<open>str\<close> is a sequence of Unicode code points: \<open>len\<close> and slicing count code
  points, so a string is modelled as the list of its code points. \<open>asc\<close> embeds an ASCII
  literal; every other character of a source literal is written as its code point.
\<close>

type_synonym pystr = "nat list"

definition asc :: "string \<Rightarrow> pystr" where
  "asc s = map of_char s"

text \<open>\<open>str(n)\<close> and \<open>f"{n}"\<close> for an \<open>int\<close>: the decimal digits, with a sign.\<close>

fun str_nat :: "nat \<Rightarrow> pystr" where
  "str_nat n = (if n < 10 then [48 + n] else str_nat (n div 10) @ [48 + n mod 10])"

declare str_nat.simps [simp del]

definition str_int :: "int \<Rightarrow> pystr" where
  "str_int i = (if i < 0 then 45 # str_nat (nat (- i)) else str_nat (nat i))"

text \<open>
  \<open>str.isspace\<close> on one code point; the regular expression class \<open>\s\<close> of a \<open>str\<close>
  pattern and \<open>str.strip()\<close> use the same set.
\<close>

definition is_space :: "nat \<Rightarrow> bool" where
  "is_space c \<longleftrightarrow>
     (9 \<le> c \<and> c \<le> 13) \<or> (28 \<le> c \<and> c \<le> 32) \<or> c = 133 \<or> c = 160 \<or> c = 5760
     \<or> (8192 \<le> c \<and> c \<le> 8202) \<or> c = 8232 \<or> c = 8233 \<or> c = 8239 \<or> c = 8287
     \<or> c = 12288"

definition py_strip :: "pystr \<Rightarrow> pystr" where
  "py_strip s = rev (dropWhile is_space (rev (dropWhile is_space s)))"

text \<open>\<open>s.split(sep)\<close> for a separator of one character: one more piece than separators.\<close>

fun split_on :: "nat \<Rightarrow> pystr \<Rightarrow> pystr list" where
  "split_on c [] = [[]]"
| "split_on c (x # xs) =
     (if x = c then [] # split_on c xs
      else (case split_on c xs of [] \<Rightarrow> [[x]] | w # ws \<Rightarrow> (x # w) # ws))"

fun startswith :: "pystr \<Rightarrow> pystr \<Rightarrow> bool" where
  "startswith s [] = True"
| "startswith [] (p # ps) = False"
| "startswith (c # cs) (p # ps) = (c = p \<and> startswith cs ps)"

text \<open>\<open>sub in s\<close>.\<close>

fun py_in :: "pystr \<Rightarrow> pystr \<Rightarrow> bool" where
  "py_in sub [] = (sub = [])"
| "py_in sub (c # cs) = (startswith (c # cs) sub \<or> py_in sub cs)"

text \<open>
  \<open>s.replace(old, new)\<close> for a non-empty \<open>old\<close>: every occurrence, left to right, without
  overlaps. The counter is the number of characters of a matched \<open>old\<close> still to skip.
\<close>

fun replace_from :: "pystr \<Rightarrow> pystr \<Rightarrow> nat \<Rightarrow> pystr \<Rightarrow> pystr" where
  "replace_from old new k [] = []"
| "replace_from old new (Suc k) (c # cs) = replace_from old new k cs"
| "replace_from old new 0 (c # cs) =
     (if startswith (c # cs) old then new @ replace_from old new (length old - 1) cs
      else c # replace_from old new 0 cs)"

definition py_replace :: "pystr \<Rightarrow> pystr \<Rightarrow> pystr \<Rightarrow> pystr" where
  "py_replace old new s = replace_from old new 0 s"

text \<open>
  \<open>s.lower()\<close> on the letters A to Z, every other character kept. It is applied to
  the market sentiments of the localization table, which are ASCII, and to column names
  that are then compared with the ASCII words \<open>city\<close>, \<open>position\<close> and \<open>salary\<close>,
  which no other character can produce.
\<close>

definition lower_char :: "nat \<Rightarrow> nat" where
  "lower_char c = (if 65 \<le> c \<and> c \<le> 90 then c + 32 else c)"

definition py_lower :: "pystr \<Rightarrow> pystr" where
  "py_lower s = map lower_char s"

definition join_with :: "pystr \<Rightarrow> pystr list \<Rightarrow> pystr" where
  "join_with sep xs = concat (case xs of [] \<Rightarrow> [] | y # ys \<Rightarrow> y # map (\<lambda>z. sep @ z) ys)"

section \<open>The regular expressions of the response parser\<close>

text \<open>
  The five patterns of \<open>_parse_ai_response\<close> have one shape: a label matched without
  regard to case, \<open>\s*\<close>, and a group that is either \<open>(.+)\<close> or \<open>(.+?)\<close> followed by a
  lookahead \<open>(?=STOP:|$)\<close>. \<open>re.search\<close> tries the start positions from the left; at one
  position \<open>\s*\<close> is greedy and gives characters back one by one.

  Under \<open>re.IGNORECASE\<close> a letter of the pattern matches its two ASCII cases, and in
  addition the code points whose lower case it is or that the engine treats as
  equivalent: U+0130 and U+0131 for \<open>i\<close>, U+017F for \<open>s\<close>, U+212A for \<open>k\<close>.
\<close>

definition ci_eq :: "nat \<Rightarrow> nat \<Rightarrow> bool" where
  "ci_eq p c \<longleftrightarrow>
     lower_char c = lower_char p
     \<or> (lower_char p = 105 \<and> (c = 304 \<or> c = 305))
     \<or> (lower_char p = 115 \<and> c = 383)
     \<or> (lower_char p = 107 \<and> c = 8490)"

text \<open>The text that follows the label, when the text starts with the label.\<close>

fun match_label :: "pystr \<Rightarrow> pystr \<Rightarrow> pystr option" where
  "match_label [] s = Some s"
| "match_label (p # ps) [] = None"
| "match_label (p # ps) (c # cs) = (if ci_eq p c then match_label ps cs else None)"

text \<open>
  The lookahead \<open>(?=STOP:|$)\<close>: the stop label follows, or the position is the end of
  the response or just before a newline that ends it.
\<close>

definition at_stop :: "pystr \<Rightarrow> pystr \<Rightarrow> bool" where
  "at_stop stop s \<longleftrightarrow> match_label stop s \<noteq> None \<or> s = [] \<or> s = [10]"

text \<open>\<open>(.+)\<close> at the end of a pattern: the rest of the line, at least one character.\<close>

definition greedy_line :: "pystr \<Rightarrow> pystr option" where
  "greedy_line s = (let g = takeWhile (\<lambda>c. c \<noteq> 10) s in if g = [] then None else Some g)"

text \<open>
  \<open>(.+?)(?=STOP:|$)\<close>: the shortest non-empty run of characters that \<open>.\<close> matches
  (every character with \<open>re.DOTALL\<close>, every character but the newline without) after
  which the lookahead holds.
\<close>

fun lazy_group :: "bool \<Rightarrow> pystr \<Rightarrow> pystr \<Rightarrow> pystr option" where
  "lazy_group dotall stop [] = None"
| "lazy_group dotall stop (c # cs) =
     (if c = 10 \<and> \<not> dotall then None
      else if at_stop stop cs then Some [c]
      else map_option ((#) c) (lazy_group dotall stop cs))"

text \<open>\<open>\s*\<close> followed by the group: first with \<open>k\<close> white-space characters, then fewer.\<close>

fun try_spaces :: "(pystr \<Rightarrow> pystr option) \<Rightarrow> pystr \<Rightarrow> nat \<Rightarrow> pystr option" where
  "try_spaces grp r 0 = grp r"
| "try_spaces grp r (Suc k) =
     (case grp (drop (Suc k) r) of Some g \<Rightarrow> Some g | None \<Rightarrow> try_spaces grp r k)"

definition match_at :: "pystr \<Rightarrow> (pystr \<Rightarrow> pystr option) \<Rightarrow> pystr \<Rightarrow> pystr option" where
  "match_at label grp s =
     (case match_label label s of
        None \<Rightarrow> None
      | Some r \<Rightarrow> try_spaces grp r (length (takeWhile is_space r)))"

text \<open>\<open>re.search\<close>: group 1 of the leftmost match, \<open>None\<close> when no position matches.\<close>

fun re_search :: "pystr \<Rightarrow> (pystr \<Rightarrow> pystr option) \<Rightarrow> pystr \<Rightarrow> pystr option" where
  "re_search label grp [] = match_at label grp []"
| "re_search label grp (c # cs) =
     (case match_at label grp (c # cs) of
        Some g \<Rightarrow> Some g
      | None \<Rightarrow> re_search label grp cs)"

definition subject_match :: "pystr \<Rightarrow> pystr option" where
  "subject_match ai_response = re_search (asc ''SUBJECT:'') greedy_line ai_response"

definition body_match :: "pystr \<Rightarrow> pystr option" where
  "body_match ai_response =
     re_search (asc ''BODY:'') (lazy_group True (asc ''SOCIAL:'')) ai_response"

definition social_match :: "pystr \<Rightarrow> pystr option" where
  "social_match ai_response =
     re_search (asc ''SOCIAL:'') (lazy_group False (asc ''CTA:'')) ai_response"

definition cta_match :: "pystr \<Rightarrow> pystr option" where
  "cta_match ai_response =
     re_search (asc ''CTA:'') (lazy_group False (asc ''BENEFITS:'')) ai_response"

definition benefits_match :: "pystr \<Rightarrow> pystr option" where
  "benefits_match ai_response = re_search (asc ''BENEFITS:'') greedy_line ai_response"

section \<open>Data of the content pipeline\<close>

text \<open>Every \<open>raise\<close> of the modelled code is a value of this type.\<close>

datatype error = TypeError | ZeroDivisionError | NoCityColumn | LibraryError pystr

text \<open>
  A city's entry of the localization table is a dictionary whose values are strings or
  lists of strings; the two kinds are kept in two association lists, and a key that is
  in neither is absent from the dictionary.
\<close>

record city_context =
  str_items :: "(string \<times> pystr) list"
  list_items :: "(string \<times> pystr list) list"

definition get_str :: "city_context \<Rightarrow> string \<Rightarrow> pystr \<Rightarrow> pystr" where
  "get_str ctx k d = (case map_of (str_items ctx) k of Some v \<Rightarrow> v | None \<Rightarrow> d)"

definition get_list :: "city_context \<Rightarrow> string \<Rightarrow> pystr list \<Rightarrow> pystr list" where
  "get_list ctx k d = (case map_of (list_items ctx) k of Some v \<Rightarrow> v | None \<Rightarrow> d)"

text \<open>
  The four predicted metrics. The code returns them as text (\<open>"18.5%"\<close>, \<open>"3.9x"\<close>, a
  rupee amount); the record holds the numbers that are printed: the two percentages and
  the multiplier before their rounding to one decimal, and the integer \<open>int(final_cost)\<close>.
\<close>

record prediction =
  ctr :: real
  conversion_rate :: real
  roas :: real
  cost_per_conversion :: int

text \<open>
  The campaign content dictionary. \<open>predictions\<close> is added by the generator,
  \<open>regional_version\<close> and \<open>local_context\<close> by localization; \<open>None\<close> is an absent key.
\<close>

record content =
  email_subject :: pystr
  email_body :: pystr
  social_post :: pystr
  call_to_action :: pystr
  key_benefits :: "pystr list"
  predictions :: "prediction option"
  regional_version :: "pystr option"
  local_context :: "city_context option"

section \<open>backend/ai\_engine.py\<close>

text \<open>
  \<open>market_context\<close> as \<open>get_market_context\<close> builds it: each key may be absent
  (\<open>None\<close>), and \<open>city_data\<close> is a dictionary of which the generator reads three keys.
\<close>

record city_data =
  total_positions :: "int option"
  cd_companies_hiring :: "int option"
  market_score :: "real option"

record course_relevance =
  cr_market_score :: "real option"
  growth_potential :: "pystr option"

record market_context =
  city_data :: "city_data option"
  course_relevance :: "course_relevance option"
  market_summary :: "pystr option"
  campaign_hooks :: "pystr list option"

definition empty_context :: market_context where
  "empty_context =
     \<lparr>city_data = None, course_relevance = None, market_summary = None, campaign_hooks = None\<rparr>"

text \<open>
  What the generator takes from its environment: the rounding of one floating-point
  operation to the nearest float (the identity is exact arithmetic), the text of a float
  in an f-string, and the current month and year.
\<close>

record runtime =
  rnd :: "real \<Rightarrow> real"
  float_str :: "real \<Rightarrow> pystr"
  month_year :: pystr

definition get_total_positions :: "market_context \<Rightarrow> int option" where
  "get_total_positions mc = (case city_data mc of None \<Rightarrow> None | Some cd \<Rightarrow> total_positions cd)"

definition get_companies_hiring :: "market_context \<Rightarrow> int option" where
  "get_companies_hiring mc =
     (case city_data mc of None \<Rightarrow> None | Some cd \<Rightarrow> cd_companies_hiring cd)"

definition get_market_score :: "market_context \<Rightarrow> real option" where
  "get_market_score mc = (case city_data mc of None \<Rightarrow> None | Some cd \<Rightarrow> market_score cd)"

definition brand_tone :: pystr where
  "brand_tone = asc ''professional, motivational, career-focused''"

definition brand_target_audience :: pystr where
  "brand_target_audience = asc ''working professionals seeking career advancement''"

definition brand_key_messages :: "pystr list" where
  "brand_key_messages =
     [asc ''Upskill for Success'', asc ''Transform Your Career'',
      asc ''Industry-Relevant Skills'', asc ''Expert-Led Learning'']"

definition create_content_prompt ::
  "runtime \<Rightarrow> pystr \<Rightarrow> pystr \<Rightarrow> pystr \<Rightarrow> market_context \<Rightarrow> pystr" where
  "create_content_prompt rt course city campaign_type mc =
    (let hooks = (case campaign_hooks mc of None \<Rightarrow> [] | Some h \<Rightarrow> h);
         summary = (case market_summary mc of None \<Rightarrow> [] | Some s \<Rightarrow> s);
         relevance = (case course_relevance mc of
                        None \<Rightarrow> \<lparr>cr_market_score = None, growth_potential = None\<rparr>
                      | Some r \<Rightarrow> r)
     in
     [10] @ asc ''Create a high-converting marketing campaign for upGrad'' @ [39] @ asc ''s ''
     @ course @ asc '' course targeting professionals in '' @ city @ asc ''.'' @ [10, 10]
     @ asc ''MARKET CONTEXT:'' @ [10] @ summary @ [10, 10] @ asc ''KEY MARKET INSIGHTS:''
     @ [10] @ asc ''- Total positions available: ''
     @ (case get_total_positions mc of None \<Rightarrow> asc ''N/A'' | Some p \<Rightarrow> str_int p) @ [10]
     @ asc ''- Companies hiring: ''
     @ (case get_companies_hiring mc of None \<Rightarrow> asc ''N/A'' | Some c \<Rightarrow> str_int c) @ [10]
     @ asc ''- Course market score: ''
     @ (case cr_market_score relevance of None \<Rightarrow> asc ''N/A'' | Some x \<Rightarrow> float_str rt x)
     @ asc ''/10'' @ [10] @ asc ''- Growth potential: ''
     @ (case growth_potential relevance of None \<Rightarrow> asc ''Medium'' | Some g \<Rightarrow> g) @ [10, 10]
     @ asc ''CAMPAIGN HOOKS TO USE:'' @ [10]
     @ (if hooks \<noteq> [] then join_with (asc '', '') hooks
        else asc ''Focus on career advancement'')
     @ [10, 10] @ asc ''BRAND GUIDELINES:''
     @ [10] @ asc ''- Brand: upGrad'' @ [10] @ asc ''- Tone: '' @ brand_tone @ [10]
     @ asc ''- Target: '' @ brand_target_audience @ [10] @ asc ''- Key Message: ''
     @ (case brand_key_messages of [] \<Rightarrow> [] | m # _ \<Rightarrow> m) @ [10, 10]
     @ asc ''GENERATE THE FOLLOWING:'' @ [10, 10]
     @ asc ''1. EMAIL SUBJECT LINE (max 60 characters):'' @ [10]
     @ asc ''[Create urgency and include city/course reference]'' @ [10, 10]
     @ asc ''2. EMAIL BODY (150-200 words):'' @ [10]
     @ asc ''[Professional tone, include market data, salary benefits, ''
     @ asc ''call-to-action]'' @ [10, 10] @ asc ''3. SOCIAL MEDIA POST (280 characters max):''
     @ [10] @ asc ''[Engaging, include relevant hashtags, motivational]'' @ [10, 10]
     @ asc ''4. CALL-TO-ACTION:'' @ [10] @ asc ''[Clear, action-oriented, creates urgency]''
     @ [10, 10] @ asc ''5. KEY BENEFITS (3 points):'' @ [10]
     @ asc ''[Career growth, salary increase, market relevance]'' @ [10, 10]
     @ asc ''FORMAT YOUR RESPONSE AS:'' @ [10] @ asc ''SUBJECT: [subject line]''
     @ [10] @ asc ''BODY: [email body]'' @ [10] @ asc ''SOCIAL: [social media post]''
     @ [10] @ asc ''CTA: [call to action]'' @ [10]
     @ asc ''BENEFITS: [benefit 1] | [benefit 2] | [benefit 3]''
     @ [10, 10] @ asc ''Current date: '' @ month_year rt @ [10] @ asc ''Campaign type: ''
     @ campaign_type @ [10])"

text \<open>
  The three templates of \<open>_generate_fallback_content\<close>, keyed by course; the literals
  are the code points of the source file as Python reads it.
\<close>

record template =
  t_subject :: pystr
  t_body :: pystr
  t_social :: pystr
  t_cta :: pystr

definition templates :: "pystr \<Rightarrow> pystr \<Rightarrow> int \<Rightarrow> int \<Rightarrow> (pystr \<times> template) list" where
  "templates course city positions companies =
   [(asc ''AI/ML'',
     \<lparr>t_subject =
        city @ [39] @ asc ''s AI Boom: '' @ str_int positions @ asc ''+ Jobs - Upskill Now!'',
      t_body =
        asc ''Hey [Name], '' @ city
        @ asc '' is experiencing unprecedented AI/ML growth with '' @ str_int positions
        @ asc ''+ positions across '' @ str_int companies @ asc ''+ companies. Join upGrad''
        @ [39] @ asc ''s comprehensive '' @ course
        @ asc '' program and ride the wave of AI transformation. Industry ''
        @ asc ''experts, hands-on projects, and guaranteed career support. ''
        @ asc ''Limited seats - enroll today!'',
      t_social =
        [240, 376, 353, 8364] @ asc '' '' @ city @ asc '' AI revolution is HERE! ''
        @ str_int positions @ asc ''+ jobs, '' @ str_int companies
        @ asc ''+ companies hiring. Ready to level up? #upGrad #AIJobs #''
        @ py_replace (asc '' '') [] city @ asc ''Tech'',
      t_cta = asc ''Enroll in AI/ML Program - Limited Seats!''\<rparr>),
    (asc ''Data Science'',
     \<lparr>t_subject =
        city @ asc '' Data Gold Rush: '' @ str_int positions @ asc ''+ Opportunities!'',
      t_body =
        asc ''[Name], '' @ city @ [39]
        @ asc ''s data landscape is exploding with '' @ str_int positions
        @ asc ''+ opportunities across '' @ str_int companies
        @ asc ''+ companies! Master Data Science with upGrad'' @ [39]
        @ asc ''s industry-aligned program. Real projects, expert mentorship, ''
        @ asc ''and career transformation guaranteed. Your data-driven ''
        @ asc ''future starts now!'',
      t_social =
        [240, 376, 8220, 352] @ asc '' '' @ city @ asc '' needs data wizards! ''
        @ str_int positions @ asc ''+ positions, '' @ str_int companies
        @ asc ''+ companies. Become the data hero! #DataScience #upGrad #''
        @ py_replace (asc '' '') [] city,
      t_cta = asc ''Start Your Data Science Journey Today!''\<rparr>),
    (asc ''Generative AI'',
     \<lparr>t_subject = city @ asc '' GenAI Boom: Create Your Future Today!'',
      t_body =
        asc ''Ready to shape the future, [Name]? '' @ city @ [39]
        @ asc ''s GenAI sector is booming with '' @ str_int positions
        @ asc ''+ opportunities! Master Generative AI with upGrad and unlock ''
        @ asc ''unlimited potential. From ChatGPT to image generation - ''
        @ asc ''learn it all. Transform your career in the AI revolution!'',
      t_social =
        [226, 339, 168] @ asc '' GenAI is transforming '' @ city
        @ asc ''! Create, innovate, earn big. Join the revolution! ''
        @ asc ''#GenerativeAI #upGrad #'' @ py_replace (asc '' '') [] city,
      t_cta = asc ''Master Generative AI - Enroll Now!''\<rparr>)]"

definition generate_fallback_content ::
  "pystr \<Rightarrow> pystr \<Rightarrow> pystr \<Rightarrow> market_context \<Rightarrow> content" where
  "generate_fallback_content course city campaign_type mc =
    (let positions = (case get_total_positions mc of None \<Rightarrow> 1000 | Some p \<Rightarrow> p);
         companies = (case get_companies_hiring mc of None \<Rightarrow> 50 | Some c \<Rightarrow> c);
         ts = templates course city positions companies;
         template = (case map_of ts course of
                       Some t \<Rightarrow> t
                     | None \<Rightarrow> snd (ts ! 0))
     in \<lparr>email_subject = t_subject template,
         email_body = t_body template,
         social_post = t_social template,
         call_to_action = t_cta template,
         key_benefits =
           [asc ''Access to '' @ str_int positions @ asc ''+ job opportunities'',
            asc ''Industry-expert led curriculum'',
            asc ''Guaranteed career support''],
         predictions = None, regional_version = None, local_context = None\<rparr>)"

text \<open>
  \<open>_parse_ai_response\<close> on a text. Truncation is the last step, on the stripped fields.
\<close>

definition parse_text :: "pystr \<Rightarrow> pystr \<Rightarrow> pystr \<Rightarrow> content" where
  "parse_text ai_response course city =
    (let subject = (case subject_match ai_response of
                      Some g \<Rightarrow> py_strip g
                    | None \<Rightarrow> city @ asc '' '' @ course
                              @ asc '' Opportunity - Transform Your Career!'');
         body = (case body_match ai_response of
                   Some g \<Rightarrow> py_strip g
                 | None \<Rightarrow> asc ''Exciting '' @ course @ asc '' opportunities in '' @ city
                           @ asc ''. Join upGrad today!'');
         social = (case social_match ai_response of
                     Some g \<Rightarrow> py_strip g
                   | None \<Rightarrow> [240, 376, 353, 8364] @ asc '' '' @ course
                             @ asc '' opportunities in '' @ city @ asc ''! #upGrad'');
         cta = (case cta_match ai_response of
                  Some g \<Rightarrow> py_strip g
                | None \<Rightarrow> asc ''Enroll Now - Limited Seats!'');
         benefits = (case benefits_match ai_response of
                       Some g \<Rightarrow> map py_strip (split_on 124 (py_strip g))
                     | None \<Rightarrow> [asc ''Career advancement'', asc ''Salary increase'',
                                asc ''Industry recognition''])
     in \<lparr>email_subject = take 60 subject,
         email_body = body,
         social_post = take 280 social,
         call_to_action = cta,
         key_benefits = take 3 benefits,
         predictions = None, regional_version = None, local_context = None\<rparr>)"

text \<open>
  The value handed to the parser is the text of the external model or, when no model is
  configured, the dictionary of the fallback. \<open>re.search\<close> on a dictionary raises
  \<open>TypeError\<close>, which the parser's own handler turns into the fallback content for the
  campaign type \<open>"Email"\<close> and an empty market context.
\<close>

datatype ai_output = Text pystr | Dict content

fun parse_ai_response :: "ai_output \<Rightarrow> pystr \<Rightarrow> pystr \<Rightarrow> content" where
  "parse_ai_response (Text ai_response) course city = parse_text ai_response course city"
| "parse_ai_response (Dict d) course city =
     generate_fallback_content course city (asc ''Email'') empty_context"

text \<open>\<open>_predict_performance\<close>: the local variables, then the returned dictionary.\<close>

definition base_ctr :: real where "base_ctr = 0.12"
definition base_conversion :: real where "base_conversion = 0.05"
definition base_roas :: real where "base_roas = 3.2"
definition base_cost :: real where "base_cost = 300"

record multiplier =
  m_ctr :: real
  m_conversion :: real
  m_roas :: real
  m_cost :: real

definition course_multipliers :: "(pystr \<times> multiplier) list" where
  "course_multipliers =
    [(asc ''AI/ML'', \<lparr>m_ctr = 1.4, m_conversion = 1.3, m_roas = 1.3, m_cost = 0.8\<rparr>),
     (asc ''Generative AI'', \<lparr>m_ctr = 1.2, m_conversion = 1.1, m_roas = 1.1, m_cost = 0.9\<rparr>),
     (asc ''Data Science'', \<lparr>m_ctr = 1.1, m_conversion = 1.0, m_roas = 1.0, m_cost = 1.0\<rparr>),
     (asc ''MSc Finance'', \<lparr>m_ctr = 0.9, m_conversion = 0.9, m_roas = 0.9, m_cost = 1.1\<rparr>)]"

definition course_multiplier :: "pystr \<Rightarrow> multiplier" where
  "course_multiplier course =
     (case map_of course_multipliers course of
        Some m \<Rightarrow> m
      | None \<Rightarrow> snd (course_multipliers ! 2))"

definition market_boost :: "(real \<Rightarrow> real) \<Rightarrow> market_context \<Rightarrow> real" where
  "market_boost r mc =
     (let score = (case get_market_score mc of None \<Rightarrow> 5 | Some m \<Rightarrow> m)
      in r (1 + r (score / 20)))"

definition final_ctr :: "(real \<Rightarrow> real) \<Rightarrow> pystr \<Rightarrow> market_context \<Rightarrow> real" where
  "final_ctr r course mc = r (r (base_ctr * m_ctr (course_multiplier course)) * market_boost r mc)"

definition final_conversion :: "(real \<Rightarrow> real) \<Rightarrow> pystr \<Rightarrow> market_context \<Rightarrow> real" where
  "final_conversion r course mc =
     r (r (base_conversion * m_conversion (course_multiplier course)) * market_boost r mc)"

definition final_roas :: "(real \<Rightarrow> real) \<Rightarrow> pystr \<Rightarrow> market_context \<Rightarrow> real" where
  "final_roas r course mc =
     r (r (base_roas * m_roas (course_multiplier course)) * market_boost r mc)"

definition final_cost :: "(real \<Rightarrow> real) \<Rightarrow> pystr \<Rightarrow> market_context \<Rightarrow> real" where
  "final_cost r course mc =
     r (r (base_cost * m_cost (course_multiplier course)) / market_boost r mc)"

text \<open>\<open>int(x)\<close> of a float: truncation towards zero.\<close>

definition py_int :: "real \<Rightarrow> int" where
  "py_int x = (if 0 \<le> x then \<lfloor>x\<rfloor> else \<lceil>x\<rceil>)"

definition predict_performance ::
  "(real \<Rightarrow> real) \<Rightarrow> pystr \<Rightarrow> pystr \<Rightarrow> pystr \<Rightarrow> market_context \<Rightarrow> error + prediction" where
  "predict_performance r course city campaign_type mc =
     (if market_boost r mc = 0 then Inl ZeroDivisionError
      else Inr \<lparr>ctr = r (final_ctr r course mc * 100),
                conversion_rate = r (final_conversion r course mc * 100),
                roas = final_roas r course mc,
                cost_per_conversion = py_int (final_cost r course mc)\<rparr>)"

text \<open>
  The external model is a function from the prompt to its text or to the exception of
  the call; \<open>_generate_with_gemini\<close> logs an exception and raises it again.
\<close>

type_synonym model = "pystr \<Rightarrow> error + pystr"

definition generate_with_gemini :: "model \<Rightarrow> pystr \<Rightarrow> error + pystr" where
  "generate_with_gemini m prompt = m prompt"

text \<open>The body of the \<open>try\<close> block of \<open>generate_campaign_content\<close>.\<close>

definition try_generate ::
  "runtime \<Rightarrow> model option \<Rightarrow> pystr \<Rightarrow> pystr \<Rightarrow> pystr \<Rightarrow> market_context \<Rightarrow> error + content"
  where
  "try_generate rt model course city campaign_type mc =
    (let prompt = create_content_prompt rt course city campaign_type mc;
         generated = (case model of
                        Some m \<Rightarrow> map_sum id Text (generate_with_gemini m prompt)
                      | None \<Rightarrow>
                          Inr (Dict (generate_fallback_content course city campaign_type mc)))
     in case generated of
          Inl e \<Rightarrow> Inl e
        | Inr out \<Rightarrow>
            (let structured_content = parse_ai_response out course city
             in case predict_performance (rnd rt) course city campaign_type mc of
                  Inl e \<Rightarrow> Inl e
                | Inr p \<Rightarrow> Inr (structured_content\<lparr>predictions := Some p\<rparr>)))"

definition generate_campaign_content ::
  "runtime \<Rightarrow> model option \<Rightarrow> pystr \<Rightarrow> pystr \<Rightarrow> pystr \<Rightarrow> market_context \<Rightarrow> error + content"
  where
  "generate_campaign_content rt model course city campaign_type mc =
    (case try_generate rt model course city campaign_type mc of
       Inr c \<Rightarrow> Inr c
     | Inl e \<Rightarrow> Inr (generate_fallback_content course city campaign_type mc))"

section \<open>simple\_server.py: the market data store\<close>

text \<open>
  The hiring table is a pandas \<open>DataFrame\<close>: column names and rows, a row giving a cell
  for a column name. A cell is missing (\<open>NaN\<close>), a string or an integer.
\<close>

datatype cell = NaN | CStr pystr | CInt int

record dataframe =
  df_columns :: "pystr list"
  df_rows :: "(pystr \<times> cell) list list"

definition cell_at :: "(pystr \<times> cell) list \<Rightarrow> pystr \<Rightarrow> cell" where
  "cell_at row col = (case map_of row col of Some c \<Rightarrow> c | None \<Rightarrow> NaN)"

text \<open>
  Three operations are the library's own and are taken as they come, each with the
  exception it may raise: \<open>Series.str.contains(city, case=False, na=False)\<close> on one
  string cell (the city is read as a regular expression), \<open>int(Series.sum())\<close> and
  \<open>Series.mode()\<close>.
\<close>

record pandas =
  str_contains :: "pystr \<Rightarrow> pystr \<Rightarrow> error + bool"
  int_sum :: "cell list \<Rightarrow> error + int"
  series_mode :: "cell list \<Rightarrow> error + cell list"

record insights =
  positions_available :: int
  companies_hiring :: int
  avg_salary :: cell
  top_skills :: "pystr list"
  growth_rate :: pystr

definition get_top_skills_for_city :: "(pystr \<times> cell) list list \<Rightarrow> pystr list" where
  "get_top_skills_for_city city_rows =
     [asc ''Python'', asc ''Machine Learning'', asc ''Data Analysis'']"

text \<open>The rows whose city cell contains the city; the first exception ends the scan.\<close>

fun contains_rows ::
  "pandas \<Rightarrow> pystr \<Rightarrow> pystr \<Rightarrow> (pystr \<times> cell) list list \<Rightarrow> error + (pystr \<times> cell) list list"
  where
  "contains_rows pd city col [] = Inr []"
| "contains_rows pd city col (r # rs) =
     (case (case cell_at r col of CStr s \<Rightarrow> str_contains pd city s | _ \<Rightarrow> Inr False) of
        Inl e \<Rightarrow> Inl e
      | Inr b \<Rightarrow>
          (case contains_rows pd city col rs of
             Inl e \<Rightarrow> Inl e
           | Inr rest \<Rightarrow> Inr (if b then r # rest else rest)))"

definition default_salary :: pystr where
  "default_salary = [8377] @ asc ''12-18 LPA''"

text \<open>
  The first part of the \<open>try\<close> block of \<open>get_city_insights\<close>: the cleaned rows whose
  city cell contains the city (\<open>city_data\<close> in the source). It raises when the table has
  no city column or when the library does.
\<close>

definition city_rows ::
  "pandas \<Rightarrow> dataframe \<Rightarrow> pystr \<Rightarrow> error + (pystr \<times> cell) list list" where
  "city_rows pd clean_data city =
    (case find (\<lambda>col. py_lower col = asc ''city'') (df_columns clean_data) of
       None \<Rightarrow> Inl NoCityColumn
     | Some city_col \<Rightarrow>
        (let rows1 = filter (\<lambda>r. cell_at r city_col \<noteq> CStr city_col) (df_rows clean_data);
             rows2 = filter (\<lambda>r. cell_at r city_col \<noteq> NaN) rows1;
             rows3 = filter (\<lambda>r. case cell_at r city_col of CStr s \<Rightarrow> length s > 2 | _ \<Rightarrow> False)
                       rows2
         in contains_rows pd city city_col rows3))"

text \<open>
  The whole \<open>try\<close> block: \<open>Inr None\<close> when it ends without returning (no row matches),
  \<open>Inl\<close> when it raises.
\<close>

definition try_city_insights :: "pandas \<Rightarrow> dataframe \<Rightarrow> pystr \<Rightarrow> error + insights option" where
  "try_city_insights pd clean_data city =
    (case city_rows pd clean_data city of
       Inl e \<Rightarrow> Inl e
     | Inr rows \<Rightarrow>
        if length rows > 0 then
          (case (case find (\<lambda>col. py_in (asc ''position'') (py_lower col))
                        (df_columns clean_data) of
                   Some positions_col \<Rightarrow> int_sum pd (map (\<lambda>r. cell_at r positions_col) rows)
                 | None \<Rightarrow> Inr (int (length rows) * 50)) of
             Inl e \<Rightarrow> Inl e
           | Inr positions \<Rightarrow>
              (case (case find (\<lambda>col. py_in (asc ''salary'') (py_lower col))
                           (df_columns clean_data) of
                      Some salary_col \<Rightarrow>
                        (case series_mode pd (map (\<lambda>r. cell_at r salary_col) rows) of
                           Inl e \<Rightarrow> Inl e
                         | Inr [] \<Rightarrow> Inr (CStr default_salary)
                         | Inr (m # _) \<Rightarrow> Inr m)
                    | None \<Rightarrow> Inr (CStr default_salary)) of
                 Inl e \<Rightarrow> Inl e
               | Inr salary \<Rightarrow>
                   Inr (Some \<lparr>positions_available = positions,
                              companies_hiring = int (length rows),
                              avg_salary = salary,
                              top_skills = get_top_skills_for_city rows,
                              growth_rate = asc ''+15% YoY''\<rparr>)))
        else Inr None)"

definition city_multipliers :: "(pystr \<times> int \<times> int) list" where
  "city_multipliers =
    [(asc ''Bangalore'', (2500, 85)),
     (asc ''Mumbai'', (1800, 62)),
     (asc ''Delhi NCR'', (2200, 78)),
     (asc ''Hyderabad'', (1600, 55)),
     (asc ''Chennai'', (1400, 48)),
     (asc ''Pune'', (1200, 42)),
     (asc ''Ahmedabad'', (800, 28)),
     (asc ''Kolkata'', (900, 32))]"

text \<open>The fallback of \<open>get_city_insights\<close>: the city's row of the table, or the default.\<close>

definition fallback_insights :: "pystr \<Rightarrow> insights" where
  "fallback_insights city =
    (let city_info = (case map_of city_multipliers city of
                        Some i \<Rightarrow> i
                      | None \<Rightarrow> (1000, 35))
     in \<lparr>positions_available = fst city_info,
         companies_hiring = snd city_info,
         avg_salary = CStr default_salary,
         top_skills = [asc ''Python'', asc ''Machine Learning'', asc ''Data Analysis''],
         growth_rate = asc ''+15% YoY''\<rparr>)"

definition get_city_insights :: "pandas \<Rightarrow> dataframe option \<Rightarrow> pystr \<Rightarrow> error + insights" where
  "get_city_insights pd hiring_data city =
    (case hiring_data of
       None \<Rightarrow> Inr (fallback_insights city)
     | Some df \<Rightarrow>
        (case try_city_insights pd df city of
           Inr (Some found) \<Rightarrow> Inr found
         | Inr None \<Rightarrow> Inr (fallback_insights city)
         | Inl e \<Rightarrow> Inr (fallback_insights city)))"

section \<open>simple\_server.py: content generation\<close>

text \<open>
  The keyword arguments of \<open>generate_content\<close>, after \<open>kwargs.get\<close> with its
  defaults, each of its documented type: \<open>tone_scale\<close>, \<open>variant_number\<close> and
  \<open>max_length\<close> integers, the others strings.
\<close>

record kwargs =
  tone_scale :: int
  language :: pystr
  variant_number :: int
  email_type :: pystr
  subject_style :: pystr
  platform :: pystr
  format_type :: pystr
  sms_type :: pystr
  max_length :: int

definition default_kwargs :: kwargs where
  "default_kwargs =
     \<lparr>tone_scale = 5, language = asc ''English'', variant_number = 1,
      email_type = asc ''promotional'', subject_style = asc ''benefit'',
      platform = asc ''linkedin'', format_type = asc ''post'',
      sms_type = asc ''promotional'', max_length = 160\<rparr>"

text \<open>The pair \<open>(tone_style, urgency_level)\<close> chosen from \<open>tone_scale\<close>.\<close>

definition tone_settings :: "int \<Rightarrow> pystr \<times> pystr" where
  "tone_settings scale =
     (if scale \<le> 3 then
        (asc ''professional, formal, and informative'', asc ''low urgency'')
      else if scale \<ge> 8 then
        (asc ''urgent, compelling, and action-oriented with FOMO elements'',
         asc ''high urgency'')
      else
        (asc ''engaging, motivational, and persuasive'', asc ''moderate urgency''))"

record regional_info =
  greeting :: pystr
  phrases :: "pystr list"
  closing :: pystr
  cultural :: pystr

definition regional_map :: "(pystr \<times> regional_info) list" where
  "regional_map =
    [(asc ''Bangalore'',
      \<lparr>greeting = asc ''Namaskara'',
       phrases = [([3221, 3270, 3250, 3256] @ asc '' (kelasa - work)''),
                  ([3245, 3253, 3263, 3255, 3277, 3247] @ asc '' (bhavishya - future)''),
                  ([3247, 3254, 3256, 3277, 3256, 3265] @ asc '' (yashassu - success)'')],
       closing = asc ''Dhanyawadagalu'',
       cultural = asc ''Silicon Valley of India, Tech hub, IT capital''\<rparr>),
     (asc ''Mumbai'',
      \<lparr>greeting = asc ''Namaste'',
       phrases = [([2325, 2366, 2350] @ asc '' (kaam - work)''),
                  ([2360, 2347, 2354, 2340, 2366] @ asc '' (safalta - success)''),
                  ([2349, 2357, 2367, 2359, 2381, 2351] @ asc '' (bhavishya - future)'')],
       closing = asc ''Dhanyawad'',
       cultural = asc ''Financial capital, Bollywood, Dreams city''\<rparr>),
     (asc ''Delhi NCR'',
      \<lparr>greeting = asc ''Namaste'',
       phrases = [([2344, 2380, 2325, 2352, 2368] @ asc '' (naukri - job)''),
                  ([2325, 2376, 2352, 2367, 2351, 2352] @ asc '' (career)''),
                  ([2340, 2352, 2325, 2381, 2325, 2368] @ asc '' (tarakki - progress)'')],
       closing = asc ''Dhanyawad'',
       cultural = asc ''Capital region, Government hub, Corporate center''\<rparr>),
     (asc ''Hyderabad'',
      \<lparr>greeting = asc ''Namaste'',
       phrases = [([3114, 3112, 3135] @ asc '' (pani - work)''),
                  ([3117, 3125, 3135, 3127, 3149, 3119, 3108, 3149, 3108, 3137] @ asc '' (bhavishyattu - future)''),
                  ([3125, 3135, 3100, 3119, 3074] @ asc '' (vijayam - success)'')],
       closing = asc ''Dhanyawadamulu'',
       cultural = asc ''Cyberabad, HITEC City, Pharma hub''\<rparr>),
     (asc ''Chennai'',
      \<lparr>greeting = asc ''Vanakkam'',
       phrases = [([2997, 3015, 2994, 3016] @ asc '' (velai - work)''),
                  ([2958, 2980, 3007, 2992, 3021, 2965, 3006, 2994, 2990, 3021] @ asc '' (ethirkaalam - future)''),
                  ([2997, 3014, 2993, 3021, 2993, 3007] @ asc '' (vetri - success)'')],
       closing = asc ''Nandri'',
       cultural = asc ''Detroit of India, IT corridor, Cultural capital''\<rparr>),
     (asc ''Pune'',
      \<lparr>greeting = asc ''Namaskar'',
       phrases = [([2325, 2366, 2350] @ asc '' (kaam - work)''),
                  ([2351, 2358] @ asc '' (yash - success)''),
                  ([2346, 2381, 2352, 2327, 2340, 2368] @ asc '' (pragati - progress)'')],
       closing = asc ''Dhanyawad'',
       cultural = asc ''Oxford of the East, IT hub, Cultural center''\<rparr>),
     (asc ''Kolkata'',
      \<lparr>greeting = asc ''Namaskar'',
       phrases = [([2453, 2494, 2460] @ asc '' (kaaj - work)''),
                  ([2477, 2476, 2495, 2487, 2509, 2479, 2510] @ asc '' (bhobishyot - future)''),
                  ([2488, 2494, 2475, 2482, 2509, 2479] @ asc '' (shafolyo - success)'')],
       closing = asc ''Dhonnobad'',
       cultural = asc ''Cultural capital, City of Joy, Educational hub''\<rparr>)]"

definition get_regional_language_elements :: "pystr \<Rightarrow> pystr \<Rightarrow> pystr" where
  "get_regional_language_elements city lang =
    (let city_info = (case map_of regional_map city of
                        Some i \<Rightarrow> i
                      | None \<Rightarrow> snd (regional_map ! 1))
     in if py_in (asc ''English'') lang
           \<and> list_ex (\<lambda>l. py_in l lang)
                [asc ''Kannada'', asc ''Hindi'', asc ''Telugu'', asc ''Tamil'', asc ''Marathi'',
                 asc ''Bengali'']
        then greeting city_info @ asc '' greeting, incorporate phrases like ''
             @ join_with (asc '', '') (take 2 (phrases city_info)) @ asc '', mention ''
             @ cultural city_info @ asc '', use '' @ closing city_info @ asc '' for closing''
        else asc ''Mention '' @ cultural city_info @ asc '', use professional English tone'')"

definition char_limits :: "(pystr \<times> int) list" where
  "char_limits =
     [(asc ''linkedin'', 3000), (asc ''instagram'', 2200), (asc ''facebook'', 63206),
      (asc ''twitter'', 280)]"

definition email_prompt ::
  "pystr \<Rightarrow> pystr \<Rightarrow> int \<Rightarrow> int \<Rightarrow> pystr \<Rightarrow> pystr \<Rightarrow> pystr \<Rightarrow> kwargs \<Rightarrow> pystr" where
  "email_prompt course city positions companies salary tone_style regional_elements kw =
         [10] @ asc ''            Create an email marketing campaign for upGrad'' @ [39]
         @ asc ''s '' @ course @ asc '' course targeting professionals in '' @ city @ asc ''.''
         @ [10, 10] @ asc ''            MARKET DATA:'' @ [10] @ asc ''            - ''
         @ str_int positions @ asc ''+ job positions available'' @ [10] @ asc ''            - ''
         @ str_int companies @ asc '' companies actively hiring'' @ [10]
         @ asc ''            - Average salary: '' @ salary @ [10] @ asc ''            - City: ''
         @ city @ [10, 10] @ asc ''            EMAIL SPECIFICATIONS:'' @ [10]
         @ asc ''            - Email type: '' @ email_type kw @ [10]
         @ asc ''            - Subject line style: '' @ subject_style kw @ [10]
         @ asc ''            - Tone: '' @ tone_style @ [10] @ asc ''            - Language: ''
         @ language kw @ [10] @ asc ''            - Regional elements: '' @ regional_elements @ [10]
         @ asc ''            - Variant: #'' @ str_int (variant_number kw) @ [10, 10]
         @ asc ''            Generate a complete email with:'' @ [10]
         @ asc ''            1. Compelling subject line using '' @ subject_style kw
         @ asc '' approach'' @ [10] @ asc ''            2. Personalized greeting for '' @ city
         @ asc '' professionals'' @ [10] @ asc ''            3. Market opportunity highlighting ''
         @ str_int positions @ asc ''+ jobs'' @ [10]
         @ asc ''            4. upGrad course benefits and value proposition'' @ [10]
         @ asc ''            5. Clear call-to-action'' @ [10]
         @ asc ''            6. Regional language touches: '' @ regional_elements @ [10, 10]
         @ asc ''            Format as: Subject: [subject]'' @ [10, 10] @ asc ''[email body]''
         @ [10] @ asc ''            ''"

definition social_prompt ::
  "pystr \<Rightarrow> pystr \<Rightarrow> int \<Rightarrow> int \<Rightarrow> pystr \<Rightarrow> pystr \<Rightarrow> pystr \<Rightarrow> kwargs \<Rightarrow> pystr" where
  "social_prompt course city positions companies salary tone_style regional_elements kw =
    (let char_limit = (case map_of char_limits (platform kw) of Some l \<Rightarrow> l | None \<Rightarrow> 1000)
     in
         [10] @ asc ''            Create a '' @ platform kw @ asc '' '' @ format_type kw
         @ asc '' for upGrad'' @ [39] @ asc ''s '' @ course @ asc '' course targeting '' @ city
         @ asc '' professionals.'' @ [10, 10] @ asc ''            MARKET DATA:'' @ [10]
         @ asc ''            - '' @ str_int positions @ asc ''+ positions available in '' @ city
         @ [10] @ asc ''            - '' @ str_int companies @ asc '' companies hiring'' @ [10]
         @ asc ''            - Average salary: '' @ salary @ [10, 10]
         @ asc ''            SOCIAL MEDIA SPECS:'' @ [10] @ asc ''            - Platform: ''
         @ platform kw @ [10] @ asc ''            - Format: '' @ format_type kw @ [10]
         @ asc ''            - Character limit: '' @ str_int char_limit @ [10]
         @ asc ''            - Tone: '' @ tone_style @ [10] @ asc ''            - Regional touch: ''
         @ regional_elements @ [10] @ asc ''            - Variant: #'' @ str_int (variant_number kw)
         @ [10, 10] @ asc ''            Create engaging '' @ platform kw @ asc '' content that:''
         @ [10] @ asc ''            1. Hooks attention in first line'' @ [10]
         @ asc ''            2. Highlights '' @ city @ asc '' job market boom'' @ [10]
         @ asc ''            3. Showcases upGrad'' @ [39] @ asc ''s credibility'' @ [10]
         @ asc ''            4. Uses relevant hashtags for '' @ platform kw @ [10]
         @ asc ''            5. Includes regional elements: '' @ regional_elements @ [10]
         @ asc ''            6. Stays under '' @ str_int char_limit @ asc '' characters'' @ [10, 10]
         @ asc ''            Make it '' @ platform kw @ asc ''-optimized and shareable.'' @ [10]
         @ asc ''            '')"

definition sms_prompt ::
  "pystr \<Rightarrow> pystr \<Rightarrow> int \<Rightarrow> int \<Rightarrow> pystr \<Rightarrow> pystr \<Rightarrow> pystr \<Rightarrow> kwargs \<Rightarrow> pystr" where
  "sms_prompt course city positions companies salary tone_style regional_elements kw =
         [10] @ asc ''            Create SMS/WhatsApp messages for upGrad'' @ [39] @ asc ''s ''
         @ course @ asc '' course targeting '' @ city @ asc '' professionals.'' @ [10, 10]
         @ asc ''            MARKET DATA:'' @ [10] @ asc ''            - '' @ str_int positions
         @ asc ''+ jobs in '' @ city @ [10] @ asc ''            - '' @ str_int companies
         @ asc '' companies hiring'' @ [10] @ asc ''            - Average salary: '' @ salary
         @ [10, 10] @ asc ''            SMS SPECIFICATIONS:'' @ [10]
         @ asc ''            - Message type: '' @ sms_type kw @ [10]
         @ asc ''            - Max length: '' @ str_int (max_length kw) @ asc '' characters'' @ [10]
         @ asc ''            - Tone: '' @ tone_style @ [10] @ asc ''            - Regional touch: ''
         @ regional_elements @ [10] @ asc ''            - Variant: #'' @ str_int (variant_number kw)
         @ [10, 10] @ asc ''            Create concise message that:'' @ [10]
         @ asc ''            1. Grabs attention immediately'' @ [10]
         @ asc ''            2. Mentions '' @ city @ asc '' job opportunities'' @ [10]
         @ asc ''            3. Clear upGrad value proposition'' @ [10]
         @ asc ''            4. Strong call-to-action'' @ [10] @ asc ''            5. Stays under ''
         @ str_int (max_length kw) @ asc '' characters'' @ [10]
         @ asc ''            6. Uses regional elements: '' @ regional_elements @ [10, 10]
         @ asc ''            Be direct, urgent, and actionable.'' @ [10] @ asc ''            ''"

definition default_prompt ::
  "pystr \<Rightarrow> pystr \<Rightarrow> pystr \<Rightarrow> int \<Rightarrow> int \<Rightarrow> pystr \<Rightarrow> pystr \<Rightarrow> pystr \<Rightarrow> pystr \<Rightarrow> kwargs
   \<Rightarrow> pystr" where
  "default_prompt course city campaign_type positions companies salary tone_style
     urgency_level regional_elements kw =
         [10] @ asc ''            Create a marketing campaign for upGrad'' @ [39] @ asc ''s ''
         @ course @ asc '' course targeting professionals in '' @ city @ asc ''.'' @ [10, 10]
         @ asc ''            MARKET DATA:'' @ [10] @ asc ''            - '' @ str_int positions
         @ asc ''+ job positions available'' @ [10] @ asc ''            - '' @ str_int companies
         @ asc '' companies actively hiring'' @ [10] @ asc ''            - Average salary: ''
         @ salary @ [10] @ asc ''            - City: '' @ city @ [10, 10]
         @ asc ''            CAMPAIGN REQUIREMENTS:'' @ [10] @ asc ''            - Tone: ''
         @ tone_style @ [10] @ asc ''            - Urgency level: '' @ urgency_level @ [10]
         @ asc ''            - Language: '' @ language kw @ [10]
         @ asc ''            - Regional elements: '' @ regional_elements @ [10]
         @ asc ''            - Variant number: '' @ str_int (variant_number kw)
         @ asc '' (make it unique)'' @ [10] @ asc ''            - Campaign type: '' @ campaign_type
         @ [10, 10] @ asc ''            Generate a compelling marketing message that:'' @ [10]
         @ asc ''            1. Highlights the job market opportunity in '' @ city @ [10]
         @ asc ''            2. Emphasizes upGrad'' @ [39] @ asc ''s value proposition'' @ [10]
         @ asc ''            3. Uses the specified tone and urgency level'' @ [10]
         @ asc ''            4. Includes relevant market statistics'' @ [10]
         @ asc ''            5. Has a clear call-to-action'' @ [10]
         @ asc ''            6. Incorporates regional elements: '' @ regional_elements @ [10, 10]
         @ asc ''            Make this variant #'' @ str_int (variant_number kw)
         @ asc '' unique with different angles, hooks, and messaging approach'' @ asc ''es.'' @ [10]
         @ asc ''            ''"

text \<open>The three pools of \<open>_generate_fallback_content\<close>.\<close>

definition hooks :: "pystr \<Rightarrow> pystr \<Rightarrow> int \<Rightarrow> pystr list" where
  "hooks course city positions =
    [[128640] @ asc '' BREAKING: '' @ course @ asc '' market explodes in '' @ city @ asc ''!'',
     [128188] @ asc '' '' @ city @ asc '' professionals: Your '' @ course
       @ asc '' moment is NOW!'',
     [9889] @ asc '' '' @ str_int positions @ asc ''+ '' @ course
       @ asc '' opportunities just opened in '' @ city,
     [127919] @ asc '' '' @ course @ asc '' boom hits '' @ city @ asc '' - Are you ready?'',
     [127775] @ asc '' '' @ city @ [39] @ asc ''s '' @ course
       @ asc '' revolution starts with YOU!'']"

definition value_props :: "pystr list" where
  "value_props =
    [asc ''Industry-aligned curriculum designed by experts'',
     asc ''Job placement assistance with 500+ hiring partners'',
     asc ''Learn from industry leaders and practitioners'',
     asc ''Hands-on projects with real-world applications'',
     asc ''Career transformation in just 6-12 months'']"

definition urgency_elements :: "pystr list" where
  "urgency_elements =
    [asc ''Limited seats available - Apply before they'' @ [39] @ asc ''re gone!'',
     asc ''Early bird discount ends soon!'',
     asc ''Next batch starts in 2 weeks - Secure your spot!'',
     asc ''Join 50,000+ successful career changers!'',
     asc ''Don'' @ [39] @ asc ''t let this opportunity pass you by!'']"

text \<open>
  \<open>pool[variant_number % len(pool)]\<close>: the remainder has the sign of the length, so the
  index is in range for every integer.
\<close>

definition pick :: "'a list \<Rightarrow> int \<Rightarrow> 'a" where
  "pick pool n = pool ! nat (n mod int (length pool))"

definition formal_content ::
  "pystr \<Rightarrow> pystr \<Rightarrow> int \<Rightarrow> int \<Rightarrow> pystr \<Rightarrow> pystr \<Rightarrow> pystr" where
  "formal_content course city positions companies hook value_prop =
     hook @ [10, 10] @ asc ''Dear Professional,'' @ [10, 10] @ asc ''We'' @ [39]
     @ asc ''re excited to share that '' @ str_int companies @ asc '' leading companies in ''
     @ city @ asc '' are actively seeking '' @ course @ asc '' professionals. With ''
     @ str_int positions @ asc ''+ positions available, this represents a significant career ''
     @ asc ''opportunity.'' @ [10, 10, 9989] @ asc '' '' @ value_prop @ [10, 9989]
     @ asc '' Comprehensive skill development program'' @ [10, 9989]
     @ asc '' Industry-recognized certification'' @ [10, 10]
     @ asc ''We invite you to explore how upGrad can help you capitalize ''
     @ asc ''on this market demand.'' @ [10, 10] @ asc ''Best regards,'' @ [10]
     @ asc ''upGrad Team''"

definition urgent_content ::
  "pystr \<Rightarrow> pystr \<Rightarrow> int \<Rightarrow> int \<Rightarrow> pystr \<Rightarrow> pystr \<Rightarrow> pystr \<Rightarrow> pystr" where
  "urgent_content course city positions companies hook value_prop urgency =
     [128293] @ asc '' '' @ hook @ [10, 10, 9200] @ asc '' URGENT ALERT: '' @ str_int positions
     @ asc ''+ '' @ course @ asc '' jobs in '' @ city @ asc '' are being SNATCHED UP FAST!''
     @ [10, 10] @ str_int companies @ asc '' TOP COMPANIES are hiring RIGHT NOW:'' @ [10, 8226]
     @ asc '' Google '' @ [8226] @ asc '' Microsoft '' @ [8226] @ asc '' Amazon '' @ [8226]
     @ asc '' Flipkart '' @ [8226] @ asc '' And more!'' @ [10, 10, 128176]
     @ asc '' Salaries up to '' @ [8377] @ asc ''25 LPA!'' @ [10, 128640] @ asc '' ''
     @ value_prop @ [10, 9889] @ asc '' '' @ urgency @ [10, 10, 10060] @ asc '' DON'' @ [39]
     @ asc ''T MISS OUT - These opportunities won'' @ [39] @ asc ''t wait!'' @ [10, 10, 128073]
     @ asc '' APPLY NOW: [Link]'' @ [10, 10] @ asc ''#UrgentHiring #'' @ city @ asc ''Jobs #''
     @ py_replace (asc '' '') [] course @ asc ''Careers''"

definition balanced_content ::
  "pystr \<Rightarrow> pystr \<Rightarrow> int \<Rightarrow> int \<Rightarrow> pystr \<Rightarrow> pystr \<Rightarrow> pystr \<Rightarrow> pystr" where
  "balanced_content course city positions companies hook value_prop urgency =
     hook @ [10, 10] @ asc ''Hey '' @ city @ asc '' professionals! '' @ [128075, 10, 10]
     @ asc ''The '' @ course @ asc '' job market is absolutely booming right now! Here'' @ [39]
     @ asc ''s what'' @ [39] @ asc ''s happening:'' @ [10, 10, 128202]
     @ asc '' Market Snapshot:'' @ [10, 8226] @ asc '' '' @ str_int positions
     @ asc ''+ open positions'' @ [10, 8226] @ asc '' '' @ str_int companies
     @ asc '' companies actively hiring'' @ [10, 8226] @ asc '' Average salary growth: 40-60%''
     @ [10, 8226] @ asc '' High demand, low supply = YOUR opportunity!'' @ [10, 10, 127891]
     @ asc '' Why upGrad?'' @ [10, 9989] @ asc '' '' @ value_prop @ [10, 9989]
     @ asc '' Live classes with industry experts'' @ [10, 9989]
     @ asc '' 1:1 mentorship and career guidance'' @ [10, 9989]
     @ asc '' Job guarantee program*'' @ [10, 10, 127919] @ asc '' '' @ urgency @ [10, 10]
     @ asc ''Ready to transform your career? Let'' @ [39] @ asc ''s make it happen!'' @ [10, 10]
     @ asc ''Apply now: [Link]''"

definition generate_fallback_content_server ::
  "pystr \<Rightarrow> pystr \<Rightarrow> int \<Rightarrow> int \<Rightarrow> int \<Rightarrow> int \<Rightarrow> pystr \<Rightarrow> pystr" where
  "generate_fallback_content_server course city positions companies scale variant campaign_type =
    (let hook = pick (hooks course city positions) variant;
         value_prop = pick value_props variant;
         urgency = pick urgency_elements variant
     in if scale \<le> 3 then formal_content course city positions companies hook value_prop
        else if scale \<ge> 8 then
          urgent_content course city positions companies hook value_prop urgency
        else balanced_content course city positions companies hook value_prop urgency)"

text \<open>
  The generative service: \<open>client_setup\<close> is the import of the client library, its
  configuration and the construction of the model (\<open>Some e\<close> when one of them raises),
  \<open>generate\<close> the call \<open>model.generate_content(prompt).text\<close>.
\<close>

record genai =
  client_setup :: "error option"
  generate :: model

record engine =
  gemini_api_key :: "pystr option"
  hiring_data :: "dataframe option"

definition cell_str :: "cell \<Rightarrow> pystr" where
  "cell_str c = (case c of NaN \<Rightarrow> asc ''nan'' | CStr s \<Rightarrow> s | CInt i \<Rightarrow> str_int i)"

text \<open>The body of the \<open>try\<close> block of \<open>generate_content\<close>.\<close>

definition try_generate_content ::
  "genai \<Rightarrow> engine \<Rightarrow> pystr \<Rightarrow> pystr \<Rightarrow> pystr \<Rightarrow> int \<Rightarrow> int \<Rightarrow> pystr \<Rightarrow> kwargs
   \<Rightarrow> error + pystr" where
  "try_generate_content g eng prompt course city positions companies campaign_type kw =
    (if gemini_api_key eng \<noteq> None \<and> gemini_api_key eng \<noteq> Some [] then
       (case client_setup g of
          Some e \<Rightarrow> Inl e
        | None \<Rightarrow>
           (case generate g prompt of
              Inl e \<Rightarrow> Inl e
            | Inr ai_content \<Rightarrow>
               if language kw = asc ''Hindi'' \<or> language kw = asc ''Multi'' then
                 (case generate g
                         (asc ''Translate key phrases to Hindi and add bilingual elements to: ''
                          @ take 200 ai_content @ asc ''...'') of
                    Inl e \<Rightarrow> Inl e
                  | Inr hindi \<Rightarrow>
                      Inr (ai_content @ [10, 10, 127470, 127475] @ asc '' '' @ take 100 hindi
                           @ asc ''...''))
               else Inr ai_content))
     else
       Inr (generate_fallback_content_server course city positions companies (tone_scale kw)
              (variant_number kw) campaign_type))"

definition generate_content ::
  "pandas \<Rightarrow> genai \<Rightarrow> engine \<Rightarrow> pystr \<Rightarrow> pystr \<Rightarrow> pystr \<Rightarrow> kwargs \<Rightarrow> error + pystr" where
  "generate_content pd g eng course city campaign_type kw =
    (case get_city_insights pd (hiring_data eng) city of
       Inl e \<Rightarrow> Inl e
     | Inr market_insights \<Rightarrow>
        (let positions = positions_available market_insights;
             companies = companies_hiring market_insights;
             salary = cell_str (avg_salary market_insights);
             tone_style = fst (tone_settings (tone_scale kw));
             urgency_level = snd (tone_settings (tone_scale kw));
             regional_elements = get_regional_language_elements city (language kw);
             prompt =
               (if campaign_type = asc ''email'' then
                  email_prompt course city positions companies salary tone_style
                    regional_elements kw
                else if campaign_type = asc ''social'' then
                  social_prompt course city positions companies salary tone_style
                    regional_elements kw
                else if campaign_type = asc ''sms'' then
                  sms_prompt course city positions companies salary tone_style
                    regional_elements kw
                else
                  default_prompt course city campaign_type positions companies salary
                    tone_style urgency_level regional_elements kw)
         in case try_generate_content g eng prompt course city positions companies
                   campaign_type kw of
              Inr generated \<Rightarrow> Inr generated
            | Inl e \<Rightarrow>
                Inr (generate_fallback_content_server course city positions companies
                       (tone_scale kw) (variant_number kw) campaign_type)))"

section \<open>backend/localization.py\<close>

definition city_contexts :: "(pystr \<times> city_context) list" where
  "city_contexts =
    [(asc ''Bangalore'',
      \<lparr>str_items =
         [(''nickname'', asc ''Silicon Valley of India''),
          (''cultural_tone'', asc ''Tech-forward, innovation-focused, cosmopolitan''),
          (''language_preference'', asc ''English with tech jargon''),
          (''market_sentiment'', asc ''High competition, growth-oriented, startup culture''),
          (''salary_expectations'', (asc ''High ('' @ [8377] @ asc ''12-36 LPA)'')),
          (''work_culture'', asc ''Fast-paced, flexible, innovation-driven'')],
       list_items =
         [(''key_industries'',
           [asc ''IT Services'', asc ''Startups'', asc ''R&D'', asc ''Biotechnology'']),
          (''local_events'',
           [asc ''Bangalore Tech Summit'', asc ''Global Innovation Summit'',
            asc ''India Mobile Congress'']),
          (''key_companies'',
           [asc ''Infosys'', asc ''Wipro'', asc ''TCS'', asc ''Flipkart'', asc ''Ola'']),
          (''hashtags'',
           [asc ''#BangaloreTech'', asc ''#SiliconValleyOfIndia'', asc ''#NammaOoru'']),
          (''local_references'',
           [asc ''Namma Metro'', asc ''UB City'', asc ''Electronic City'', asc ''Whitefield''])]\<rparr>),
     (asc ''Mumbai'',
      \<lparr>str_items =
         [(''nickname'', asc ''Financial Capital of India''),
          (''cultural_tone'', asc ''Fast-paced, opportunity-driven, commercial''),
          (''language_preference'', asc ''English/Hindi mix, business-focused''),
          (''market_sentiment'', asc ''Networking-focused, premium positioning, ambitious''),
          (''salary_expectations'', (asc ''Premium ('' @ [8377] @ asc ''10-22 LPA)'')),
          (''work_culture'', asc ''Hustle mentality, networking-heavy, results-oriented'')],
       list_items =
         [(''key_industries'',
           [asc ''Finance'', asc ''Media'', asc ''Entertainment'', asc ''Pharmaceuticals'']),
          (''local_events'',
           [asc ''Mumbai Fintech Festival'', asc ''Digital Marketing Summit'',
            asc ''Bombay Stock Exchange Events'']),
          (''key_companies'',
           [asc ''Reliance'', asc ''Tata Group'', asc ''HDFC'', asc ''Kotak Mahindra'']),
          (''hashtags'',
           [asc ''#MumbaiFinance'', asc ''#MaxCity'', asc ''#BombayDreams'']),
          (''local_references'',
           [asc ''Nariman Point'', asc ''BKC'', asc ''Marine Drive'', asc ''Local trains''])]\<rparr>),
     (asc ''Delhi NCR'',
      \<lparr>str_items =
         [(''nickname'', asc ''Corporate Hub of India''),
          (''cultural_tone'', asc ''Professional, hierarchical, power-conscious''),
          (''language_preference'', asc ''Hindi/English mix, formal tone''),
          (''market_sentiment'', asc ''Authority-respecting, status-conscious, traditional''),
          (''salary_expectations'', (asc ''Competitive ('' @ [8377] @ asc ''11-24 LPA)'')),
          (''work_culture'', asc ''Formal, hierarchy-aware, relationship-based'')],
       list_items =
         [(''key_industries'',
           [asc ''Government'', asc ''Consulting'', asc ''MNCs'', asc ''Manufacturing'']),
          (''local_events'',
           [asc ''Delhi Business Summit'', asc ''India Leadership Conclave'', asc ''CII Events'']),
          (''key_companies'',
           [asc ''HCL'', asc ''Tech Mahindra'', asc ''Maruti Suzuki'', asc ''Hero MotoCorp'']),
          (''hashtags'',
           [asc ''#DelhiNCR'', asc ''#CapitalCareers'', asc ''#DilliKiDhadak'']),
          (''local_references'',
           [asc ''Connaught Place'', asc ''Gurgaon'', asc ''Noida'', asc ''Metro''])]\<rparr>),
     (asc ''Hyderabad'',
      \<lparr>str_items =
         [(''nickname'', asc ''Cyberabad''),
          (''cultural_tone'', asc ''Tech-savvy, cost-conscious, traditional yet modern''),
          (''language_preference'', asc ''Telugu/English mix, respectful tone''),
          (''market_sentiment'', asc ''Value-focused, pragmatic, family-oriented''),
          (''salary_expectations'', (asc ''Value-driven ('' @ [8377] @ asc ''9-20 LPA)'')),
          (''work_culture'', asc ''Balanced, family-friendly, cost-effective'')],
       list_items =
         [(''key_industries'',
           [asc ''IT Services'', asc ''Biotech'', asc ''Aerospace'', asc ''Pharmaceuticals'']),
          (''local_events'',
           [asc ''Hyderabad Tech Conference'', asc ''BioTech Summit'', asc ''HITEC City Events'']),
          (''key_companies'',
           [asc ''Microsoft'', asc ''Google'', asc ''Amazon'', asc ''Facebook'']),
          (''hashtags'',
           [asc ''#Cyberabad'', asc ''#HyderabadTech'', asc ''#CityOfPearls'']),
          (''local_references'',
           [asc ''HITEC City'', asc ''Gachibowli'', asc ''Jubilee Hills'', asc ''Charminar''])]\<rparr>),
     (asc ''Chennai'',
      \<lparr>str_items =
         [(''nickname'', asc ''Detroit of India''),
          (''cultural_tone'', asc ''Traditional yet progressive, quality-focused''),
          (''language_preference'', asc ''Tamil/English mix, respectful approach''),
          (''market_sentiment'', asc ''Quality-focused, relationship-driven, conservative''),
          (''salary_expectations'', (asc ''Steady ('' @ [8377] @ asc ''8-18 LPA)'')),
          (''work_culture'', asc ''Methodical, quality-oriented, relationship-based'')],
       list_items =
         [(''key_industries'',
           [asc ''Automotive'', asc ''Manufacturing'', asc ''IT'', asc ''Healthcare'']),
          (''local_events'',
           [asc ''Chennai Auto Expo'', asc ''South India Tech Meet'',
            asc ''Manufacturing Summit'']),
          (''key_companies'',
           [asc ''TCS'', asc ''Cognizant'', asc ''Ford'', asc ''Hyundai'']),
          (''hashtags'',
           [asc ''#ChennaiTech'', asc ''#DetroitOfIndia'', asc ''#TamilNaduTech'']),
          (''local_references'',
           [asc ''OMR'', asc ''Velachery'', asc ''T.Nagar'', asc ''Marina Beach''])]\<rparr>),
     (asc ''Pune'',
      \<lparr>str_items =
         [(''nickname'', asc ''Oxford of the East''),
          (''cultural_tone'', asc ''Academic, youthful, collaborative''),
          (''language_preference'', asc ''Marathi/English mix, academic tone''),
          (''market_sentiment'', asc ''Learning-oriented, collaborative, student-friendly''),
          (''salary_expectations'', (asc ''Moderate ('' @ [8377] @ asc ''9-19 LPA)'')),
          (''work_culture'', asc ''Academic, collaborative, innovation-friendly'')],
       list_items =
         [(''key_industries'',
           [asc ''Education'', asc ''IT'', asc ''Automotive'', asc ''Manufacturing'']),
          (''local_events'',
           [asc ''Pune Tech Festival'', asc ''Education Innovation Summit'', asc ''Auto Expo'']),
          (''key_companies'',
           [asc ''Infosys'', asc ''TCS'', asc ''Bajaj'', asc ''Mahindra'']),
          (''hashtags'',
           [asc ''#PuneTech'', asc ''#OxfordOfTheEast'', asc ''#PuneIT'']),
          (''local_references'',
           [asc ''Hinjewadi'', asc ''Magarpatta'', asc ''Koregaon Park'', asc ''Deccan''])]\<rparr>),
     (asc ''Ahmedabad'',
      \<lparr>str_items =
         [(''nickname'', asc ''Manchester of India''),
          (''cultural_tone'', asc ''Business-minded, entrepreneurial, traditional''),
          (''language_preference'', asc ''Gujarati/English mix, business-focused''),
          (''market_sentiment'', asc ''Entrepreneurial, cost-effective, business-oriented''),
          (''salary_expectations'', (asc ''Cost-effective ('' @ [8377] @ asc ''7-16 LPA)'')),
          (''work_culture'', asc ''Entrepreneurial, family-business oriented, frugal'')],
       list_items =
         [(''key_industries'',
           [asc ''Textiles'', asc ''Chemicals'', asc ''Pharmaceuticals'', asc ''IT'']),
          (''local_events'',
           [asc ''Gujarat Business Summit'', asc ''Textile Expo'', asc ''Pharma Conference'']),
          (''key_companies'',
           [asc ''Adani Group'', asc ''Torrent'', asc ''Zydus'', asc ''Infibeam'']),
          (''hashtags'',
           [asc ''#AhmedabadBusiness'', asc ''#GujaratTech'', asc ''#ManchesterOfIndia'']),
          (''local_references'',
           [asc ''SG Highway'', asc ''Satellite'', asc ''Vastrapur'', asc ''Sabarmati''])]\<rparr>),
     (asc ''Kolkata'',
      \<lparr>str_items =
         [(''nickname'', asc ''Cultural Capital of India''),
          (''cultural_tone'', asc ''Intellectual, cultural, traditional''),
          (''language_preference'', asc ''Bengali/English mix, intellectual tone''),
          (''market_sentiment'', asc ''Intellectual, culture-appreciating, traditional''),
          (''salary_expectations'', (asc ''Modest ('' @ [8377] @ asc ''6-15 LPA)'')),
          (''work_culture'', asc ''Intellectual, discussion-oriented, culture-rich'')],
       list_items =
         [(''key_industries'',
           [asc ''IT'', asc ''Finance'', asc ''Jute'', asc ''Steel'']),
          (''local_events'',
           [asc ''Kolkata Book Fair'', asc ''Bengal IT Summit'', asc ''Cultural Festivals'']),
          (''key_companies'',
           [asc ''TCS'', asc ''Wipro'', asc ''ITC'', asc ''Coal India'']),
          (''hashtags'',
           [asc ''#KolkataTech'', asc ''#CulturalCapital'', asc ''#CityOfJoy'']),
          (''local_references'',
           [asc ''Salt Lake'', asc ''New Town'', asc ''Park Street'', asc ''Howrah Bridge''])]\<rparr>)]"

definition regional_languages :: "(pystr \<times> (string \<times> pystr) list) list" where
  "regional_languages =
    [(asc ''Bangalore'',
      [(''hello'', asc ''Namaskara''), (''opportunity'', asc ''Avakasha''),
       (''career'', asc ''Vyavasaya''), (''success'', asc ''Safalate'')]),
     (asc ''Mumbai'',
      [(''hello'', asc ''Namaskar''), (''opportunity'', asc ''Mauka''),
       (''career'', asc ''Career''), (''success'', asc ''Safalta'')]),
     (asc ''Delhi NCR'',
      [(''hello'', asc ''Namaste''), (''opportunity'', asc ''Mauka''),
       (''career'', asc ''Career''), (''success'', asc ''Safalta'')]),
     (asc ''Hyderabad'',
      [(''hello'', asc ''Namaste''), (''opportunity'', asc ''Avakasam''),
       (''career'', asc ''Udyogam''), (''success'', asc ''Vijayam'')]),
     (asc ''Chennai'',
      [(''hello'', asc ''Vanakkam''), (''opportunity'', asc ''Vaaipu''),
       (''career'', asc ''Thozhil''), (''success'', asc ''Vetri'')]),
     (asc ''Pune'',
      [(''hello'', asc ''Namaskar''), (''opportunity'', asc ''Sandhi''),
       (''career'', asc ''Vyavasaya''), (''success'', asc ''Yash'')])]"

record event =
  ev_name :: pystr
  ev_date :: pystr
  relevance :: pystr

definition local_events :: "(pystr \<times> event list) list" where
  "local_events =
    [(asc ''Bangalore'',
      [\<lparr>ev_name = asc ''Bangalore Tech Summit'',
        ev_date = asc ''November 2025'', relevance = asc ''High''\<rparr>,
       \<lparr>ev_name = asc ''Global Innovation Summit'',
        ev_date = asc ''December 2025'', relevance = asc ''Medium''\<rparr>,
       \<lparr>ev_name = asc ''India Mobile Congress'',
        ev_date = asc ''October 2025'', relevance = asc ''High''\<rparr>]),
     (asc ''Mumbai'',
      [\<lparr>ev_name = asc ''Mumbai Fintech Festival'',
        ev_date = asc ''October 2025'', relevance = asc ''High''\<rparr>,
       \<lparr>ev_name = asc ''Digital Marketing Summit'',
        ev_date = asc ''November 2025'', relevance = asc ''Medium''\<rparr>]),
     (asc ''Delhi NCR'',
      [\<lparr>ev_name = asc ''Delhi Business Summit'',
        ev_date = asc ''December 2025'', relevance = asc ''High''\<rparr>,
       \<lparr>ev_name = asc ''India Leadership Conclave'',
        ev_date = asc ''January 2026'', relevance = asc ''Medium''\<rparr>])]"

definition localize_subject :: "pystr \<Rightarrow> city_context \<Rightarrow> pystr" where
  "localize_subject subject ctx =
    (let nickname = get_str ctx ''nickname'' [];
         subject1 = (if nickname \<noteq> [] \<and> \<not> py_in nickname subject
                     then subject @ asc '' | '' @ nickname else subject);
         sentiment = get_str ctx ''market_sentiment'' [];
         subject2 = (if py_in (asc ''high competition'') (py_lower sentiment)
                     then py_replace (asc ''!'') (asc '' - Act Fast!'') subject1
                     else subject1)
     in take 60 subject2)"

definition get_relevant_events :: "pystr \<Rightarrow> event list" where
  "get_relevant_events city =
     filter (\<lambda>e. relevance e = asc ''High'')
       (case map_of local_events city of Some es \<Rightarrow> es | None \<Rightarrow> [])"

definition localize_body :: "pystr \<Rightarrow> city_context \<Rightarrow> pystr" where
  "localize_body body ctx =
    (let industries = get_list ctx ''key_industries'' [];
         body1 = (if industries \<noteq> []
                  then body @ [10, 10] @ asc ''With '' @ join_with (asc '', '') (take 2 industries)
                       @ asc '' leading '' @ get_str ctx ''nickname'' (asc ''the city'')
                       @ [39] @ asc ''s growth''
                  else body);
         body2 = (case get_relevant_events (get_str ctx ''city'' []) of
                    [] \<Rightarrow> body1
                  | e # _ \<Rightarrow> body1 @ asc '', and upcoming events like '' @ ev_name e);
         body3 = (case get_list ctx ''local_references'' [] of
                    [] \<Rightarrow> body2
                  | r # _ \<Rightarrow> body2 @ asc '' in areas like '' @ r);
         work_culture = get_str ctx ''work_culture'' []
     in if py_in (asc ''family-friendly'') work_culture then
          body3 @ [10, 10] @ asc ''Join thousands of professionals who'' @ [39]
          @ asc ''ve transformed their careers while maintaining work-life balance.''
        else if py_in (asc ''fast-paced'') work_culture then
          body3 @ [10, 10]
          @ asc ''Join the fast-track to success with industry-leading curriculum ''
          @ asc ''and expert mentorship.''
        else body3)"

text \<open>
  The class \<open>\w\<close>: the ASCII letters, digits and the underscore, and the code points
  beyond ASCII that the Unicode database of the interpreter counts as alphanumeric
  (the parameter \<open>alnum\<close>).
\<close>

definition is_word :: "(nat \<Rightarrow> bool) \<Rightarrow> nat \<Rightarrow> bool" where
  "is_word alnum c \<longleftrightarrow>
     (if c < 128 then (48 \<le> c \<and> c \<le> 57) \<or> (65 \<le> c \<and> c \<le> 90) \<or> (97 \<le> c \<and> c \<le> 122) \<or> c = 95
      else alnum c)"

text \<open>
  \<open>re.sub(r'#\w+', '', s)\<close>: a \<open>#\<close> that a word character follows is dropped together
  with the run of word characters after it. The flag says that such a run is being
  dropped.
\<close>

fun strip_hashtags :: "(nat \<Rightarrow> bool) \<Rightarrow> bool \<Rightarrow> pystr \<Rightarrow> pystr" where
  "strip_hashtags alnum in_tag [] = []"
| "strip_hashtags alnum in_tag (c # cs) =
     (if in_tag \<and> is_word alnum c then strip_hashtags alnum True cs
      else if c = 35 \<and> (case cs of [] \<Rightarrow> False | d # _ \<Rightarrow> is_word alnum d)
        then strip_hashtags alnum True cs
      else c # strip_hashtags alnum False cs)"

definition localize_social :: "(nat \<Rightarrow> bool) \<Rightarrow> pystr \<Rightarrow> city_context \<Rightarrow> pystr" where
  "localize_social alnum post ctx =
    (let hashtags = get_list ctx ''hashtags'' [];
         post1 = (if hashtags \<noteq> []
                  then py_strip (strip_hashtags alnum False post) @ asc '' ''
                       @ join_with (asc '' '') (take 3 hashtags)
                  else post);
         post2 = (if length post1 < 200
                  then (case get_list ctx ''local_references'' [] of
                          [] \<Rightarrow> post1
                        | r # _ \<Rightarrow> post1 @ asc '' #'' @ py_replace (asc '' '') [] r)
                  else post1)
     in take 280 post2)"

definition phrase :: "(string \<times> pystr) list \<Rightarrow> string \<Rightarrow> pystr \<Rightarrow> pystr" where
  "phrase regional_lang k d = (case map_of regional_lang k of Some v \<Rightarrow> v | None \<Rightarrow> d)"

definition not_available :: pystr where
  "not_available = asc ''Regional version not available for this city.''"

definition create_regional_version :: "content \<Rightarrow> city_context \<Rightarrow> pystr" where
  "create_regional_version c ctx =
    (let city = get_str ctx ''city'' [];
         regional_lang = (case map_of regional_languages city of Some d \<Rightarrow> d | None \<Rightarrow> [])
     in if regional_lang = [] then not_available
        else phrase regional_lang ''hello'' (asc ''Hello'') @ asc ''! ''
             @ get_str ctx ''nickname'' city @ asc '' mein ''
             @ phrase regional_lang ''opportunity'' (asc ''opportunity'') @ asc '' hai! ''
             @ asc ''Apna '' @ phrase regional_lang ''career'' (asc ''career'')
             @ asc '' transform karo aur '' @ phrase regional_lang ''success'' (asc ''success'')
             @ asc '' pao upGrad ke saath!'')"

definition localize_content :: "(nat \<Rightarrow> bool) \<Rightarrow> content \<Rightarrow> pystr \<Rightarrow> content" where
  "localize_content alnum c city =
    (case map_of city_contexts city of
       None \<Rightarrow> c
     | Some ctx \<Rightarrow>
        if str_items ctx = [] \<and> list_items ctx = [] then c
        else c\<lparr>email_subject := localize_subject (email_subject c) ctx,
               email_body := localize_body (email_body c) ctx,
               social_post := localize_social alnum (social_post c) ctx,
               regional_version := Some (create_regional_version c ctx),
               local_context := Some ctx\<rparr>)"

text \<open>
  The sentence that the regional version is documented to be, for a city and its
  nickname, from the city's row of the phrase table.
\<close>

definition regional_sentence :: "pystr \<Rightarrow> pystr \<Rightarrow> pystr option" where
  "regional_sentence city nickname =
    (case map_of regional_languages city of
       None \<Rightarrow> None
     | Some regional_lang \<Rightarrow>
         Some (phrase regional_lang ''hello'' (asc ''Hello'') @ asc ''! '' @ nickname
               @ asc '' mein '' @ phrase regional_lang ''opportunity'' (asc ''opportunity'')
               @ asc '' hai! Apna '' @ phrase regional_lang ''career'' (asc ''career'')
               @ asc '' transform karo aur '' @ phrase regional_lang ''success'' (asc ''success'')
               @ asc '' pao upGrad ke saath!''))"

text \<open>
  The subject line in the words of the specification, for a nickname, for whether the
  nickname is absent from the subject and for whether the market sentiment mentions
  high competition: the nickname is appended when it is absent, \<open>!\<close> is rewritten, and
  the result is cut to 60 characters. \<open>act_fast_first\<close> rewrites the first \<open>!\<close> only,
  \<open>act_fast_every\<close> each one.
\<close>

fun act_fast_first :: "pystr \<Rightarrow> pystr" where
  "act_fast_first [] = []"
| "act_fast_first (c # cs) =
     (if c = 33 then asc '' - Act Fast!'' @ cs else c # act_fast_first cs)"

definition act_fast_every :: "pystr \<Rightarrow> pystr" where
  "act_fast_every s = concat (map (\<lambda>c. if c = 33 then asc '' - Act Fast!'' else [c]) s)"

definition documented_subject ::
  "(pystr \<Rightarrow> pystr) \<Rightarrow> pystr \<Rightarrow> pystr \<Rightarrow> bool \<Rightarrow> bool \<Rightarrow> pystr" where
  "documented_subject act_fast subject nickname absent high_competition =
    (let named = (if absent then subject @ asc '' | '' @ nickname else subject)
     in take 60 (if high_competition then act_fast named else named))"

text \<open>
  A place of a response where a label occurs, in the words of the specification: the
  characters there are the label's when letter case is ignored. \<open>fold_case\<close> is the
  upper case of a character under \<open>re.IGNORECASE\<close> for the letters of the labels.
\<close>

definition fold_case :: "nat \<Rightarrow> nat" where
  "fold_case c =
     (if 97 \<le> c \<and> c \<le> 122 then c - 32
      else if c = 304 \<or> c = 305 then 73
      else if c = 383 then 83
      else if c = 8490 then 75
      else c)"

definition label_at :: "pystr \<Rightarrow> pystr \<Rightarrow> nat \<Rightarrow> bool" where
  "label_at label r i \<longleftrightarrow> map fold_case (take (length label) (drop i r)) = label"

section \<open>Properties of the response parser\<close>

lemma split_on_nonempty: "split_on c s \<noteq> []"
  by (induction s) (auto split: list.splits)

lemma length_split_on: "length (split_on c s) = Suc (count_list s c)"
  by (induction s) (auto split: list.splits simp: split_on_nonempty)

lemma split_on_no_sep: "c \<notin> set s \<Longrightarrow> split_on c s = [s]"
  by (induction s) auto

lemma split_on_append_sep:
  "c \<notin> set y \<Longrightarrow> split_on c (y @ c # t) = y # split_on c t"
  by (induction y) auto

lemma split_on_joined:
  assumes "\<forall>it \<in> set (y # ys). c \<notin> set it"
  shows "split_on c (concat (y # map (\<lambda>z. [c] @ z) ys)) = y # ys"
  using assms
proof (induction ys arbitrary: y)
  case Nil
  then show ?case by (simp add: split_on_no_sep)
next
  case (Cons z zs)
  have "split_on c (concat (z # map (\<lambda>z. [c] @ z) zs)) = z # zs"
    using Cons.prems by (intro Cons.IH) simp
  then show ?case using Cons.prems by (simp add: split_on_append_sep)
qed

lemma split_on_join_with:
  assumes "items \<noteq> []" and "\<forall>it \<in> set items. c \<notin> set it"
  shows "split_on c (join_with [c] items) = items"
proof (cases items)
  case Nil
  then show ?thesis using assms(1) by simp
next
  case (Cons y ys)
  have e: "(@) [c] = (#) c" by (rule ext) simp
  show ?thesis using Cons split_on_joined [of y ys c] assms(2) by (simp add: join_with_def e)
qed

lemma ci_eq_fold:
  assumes "(65 \<le> p \<and> p \<le> 90) \<or> p = 58"
  shows "ci_eq p c \<longleftrightarrow> fold_case c = p"
  using assms by (auto simp add: ci_eq_def fold_case_def lower_char_def)

lemma match_label_Some:
  assumes "\<forall>p \<in> set label. (65 \<le> p \<and> p \<le> 90) \<or> p = 58"
      and "map fold_case occ = label"
  shows "match_label label (occ @ t) = Some t"
  using assms
proof (induction label arbitrary: occ)
  case Nil
  then show ?case by simp
next
  case (Cons p ps)
  then obtain c cs where occ: "occ = c # cs" by (cases occ) auto
  have "ci_eq p c" using Cons.prems occ by (simp add: ci_eq_fold)
  moreover have "match_label ps (cs @ t) = Some t"
    using Cons.prems occ by (intro Cons.IH) auto
  ultimately show ?case using occ by simp
qed

lemma match_label_None:
  assumes "\<forall>p \<in> set label. (65 \<le> p \<and> p \<le> 90) \<or> p = 58"
      and "map fold_case (take (length label) s) \<noteq> label"
  shows "match_label label s = None"
  using assms
proof (induction label s rule: match_label.induct)
  case (1 s)
  then show ?case by simp
next
  case (2 p ps)
  then show ?case by simp
next
  case (3 p ps c cs)
  show ?case
  proof (cases "ci_eq p c")
    case True
    then have "fold_case c = p" using "3.prems"(1) by (simp add: ci_eq_fold)
    then have "map fold_case (take (length ps) cs) \<noteq> ps" using "3.prems"(2) by simp
    then have "match_label ps cs = None" using "3.prems"(1) True by (intro "3.IH") auto
    then show ?thesis using True by simp
  next
    case False
    then show ?thesis by simp
  qed
qed

lemma re_search_skip:
  assumes "\<forall>i < length pre. match_label label (drop i (pre @ s)) = None"
  shows "re_search label grp (pre @ s) = re_search label grp s"
  using assms
proof (induction pre)
  case Nil
  then show ?case by simp
next
  case (Cons c cs)
  have here: "match_label label (c # cs @ s) = None"
    using Cons.prems [rule_format, of 0] by simp
  have rest: "\<forall>i < length cs. match_label label (drop i (cs @ s)) = None"
  proof (intro allI impI)
    fix i assume "i < length cs"
    then show "match_label label (drop i (cs @ s)) = None"
      using Cons.prems [rule_format, of "Suc i"] by simp
  qed
  show ?case using here Cons.IH [OF rest] by (simp add: match_at_def)
qed

lemma re_search_here:
  assumes "match_at label grp s = Some g"
  shows "re_search label grp s = Some g"
  using assms by (cases s) simp_all

lemma try_spaces_first:
  assumes "grp (drop k r) = Some g"
  shows "try_spaces grp r k = Some g"
  using assms by (cases k) simp_all

lemma takeWhile_all: "\<forall>c \<in> set xs. P c \<Longrightarrow> takeWhile P xs = xs"
  by (induction xs) auto

lemma takeWhile_stop: "\<forall>c \<in> set xs. P c \<Longrightarrow> \<not> P x \<Longrightarrow> takeWhile P (xs @ x # ys) = xs"
  by (induction xs) auto

lemma greedy_line_rest:
  assumes "line \<noteq> []" and "10 \<notin> set line" and "rest = [] \<or> hd rest = 10"
  shows "greedy_line (line @ rest) = Some line"
proof -
  have all: "\<forall>c \<in> set line. c \<noteq> 10" using assms(2) by auto
  have "takeWhile (\<lambda>c. c \<noteq> 10) (line @ rest) = line"
  proof (cases rest)
    case Nil
    then show ?thesis using takeWhile_all [OF all] by simp
  next
    case (Cons x xs)
    then have "x = 10" using assms(3) by simp
    then show ?thesis using Cons takeWhile_stop [OF all, of 10 xs] by simp
  qed
  then show ?thesis using assms(1) by (simp add: greedy_line_def)
qed

lemma white_space:
  assumes "set sp \<subseteq> {9, 10, 13, 32}"
  shows "\<forall>c \<in> set sp. is_space c"
proof -
  have "is_space 9" "is_space 10" "is_space 13" "is_space 32"
    by (simp_all add: is_space_def)
  then show ?thesis using assms by auto
qed

lemma match_at_line:
  assumes "\<forall>p \<in> set label. (65 \<le> p \<and> p \<le> 90) \<or> p = 58"
      and "map fold_case occ = label"
      and "set sp \<subseteq> {9, 10, 13, 32}"
      and "line \<noteq> []" and "\<not> is_space (hd line)" and "10 \<notin> set line"
      and "rest = [] \<or> hd rest = 10"
  shows "match_at label greedy_line (occ @ sp @ line @ rest) = Some line"
proof -
  have m: "match_label label (occ @ sp @ line @ rest) = Some (sp @ line @ rest)"
    by (rule match_label_Some [OF assms(1,2)])
  obtain c cs where line: "line = c # cs" using assms(4) by (cases line) auto
  have "takeWhile is_space (sp @ line @ rest) = sp"
    using takeWhile_stop [OF white_space [OF assms(3)], of c "cs @ rest"] assms(5) line by simp
  then have k: "length (takeWhile is_space (sp @ line @ rest)) = length sp" by simp
  have "greedy_line (drop (length sp) (sp @ line @ rest)) = Some line"
    using greedy_line_rest [OF assms(4,6,7)] by simp
  then have "try_spaces greedy_line (sp @ line @ rest) (length sp) = Some line"
    by (rule try_spaces_first)
  then show ?thesis using m k by (simp add: match_at_def)
qed

lemma benefits_label_chars: "\<forall>p \<in> set (asc ''BENEFITS:''). (65 \<le> p \<and> p \<le> 90) \<or> p = 58"
  by (simp add: asc_def)

lemma benefits_match_line:
  assumes "r = pre @ occ @ sp @ line @ rest"
      and "map fold_case occ = asc ''BENEFITS:''"
      and "\<forall>i < length pre. \<not> label_at (asc ''BENEFITS:'') r i"
      and "set sp \<subseteq> {9, 10, 13, 32}"
      and "line \<noteq> []" and "\<not> is_space (hd line)" and "10 \<notin> set line"
      and "rest = [] \<or> hd rest = 10"
  shows "benefits_match r = Some line"
proof -
  have none: "\<forall>i < length pre. match_label (asc ''BENEFITS:'')
                 (drop i (pre @ occ @ sp @ line @ rest)) = None"
  proof (intro allI impI)
    fix i assume i: "i < length pre"
    have "\<not> label_at (asc ''BENEFITS:'') r i" using assms(3) i by blast
    then have "map fold_case (take (length (asc ''BENEFITS:''))
                 (drop i (pre @ occ @ sp @ line @ rest))) \<noteq> asc ''BENEFITS:''"
      using assms(1) by (simp add: label_at_def)
    then show "match_label (asc ''BENEFITS:'') (drop i (pre @ occ @ sp @ line @ rest)) = None"
      by (rule match_label_None [OF benefits_label_chars])
  qed
  have "match_at (asc ''BENEFITS:'') greedy_line (occ @ sp @ line @ rest) = Some line"
    by (rule match_at_line [OF benefits_label_chars assms(2,4,5,6,7,8)])
  then have "re_search (asc ''BENEFITS:'') greedy_line (occ @ sp @ line @ rest) = Some line"
    by (rule re_search_here)
  then show ?thesis
    using re_search_skip [OF none, of greedy_line] assms(1) by (simp add: benefits_match_def)
qed


text \<open>
  C5, as amended. The benefits are read at the first place of the response where
  \<open>BENEFITS:\<close> occurs in any letter case, which need not be a line of its own. When that
  occurrence is followed by white space and then a non-empty rest of line made of items
  separated by \<open>|\<close>, \<open>key_benefits\<close> is the first three items, each stripped: exactly 3
  entries for three or more items, exactly as many entries as items for fewer, never
  padded.
\<close>

theorem key_benefits_from_first_label:
  assumes "r = pre @ occ @ sp @ line @ rest"
      and "map fold_case occ = asc ''BENEFITS:''"
      and "\<forall>i < length pre. \<not> label_at (asc ''BENEFITS:'') r i"
      and "set sp \<subseteq> {9, 10, 13, 32}"
      and "line \<noteq> []" and "\<not> is_space (hd line)" and "10 \<notin> set line"
      and "rest = [] \<or> hd rest = 10"
      and "py_strip line = join_with [124] items"
      and "items \<noteq> []" and "\<forall>it \<in> set items. 124 \<notin> set it"
  shows "key_benefits (parse_text r course city) = take 3 (map py_strip items)
         \<and> (3 \<le> length items \<longrightarrow> length (key_benefits (parse_text r course city)) = 3)
         \<and> (length items < 3 \<longrightarrow>
              length (key_benefits (parse_text r course city)) = length items)"
proof -
  have g: "benefits_match r = Some line"
    by (rule benefits_match_line [OF assms(1-8)])
  have "split_on 124 (py_strip line) = items"
    using split_on_join_with [OF assms(10,11)] assms(9) by simp
  then have "key_benefits (parse_text r course city) = take 3 (map py_strip items)"
    using g by (simp add: parse_text_def Let_def)
  then show ?thesis by simp
qed

theorem key_benefits_from_first_label_witness:
  "key_benefits (parse_text (asc ''Hi'' @ [10] @ asc ''BENEFITS: a | b | c | d'' @ [10]
                             @ asc ''Regards | upGrad | Team'') (asc ''AI/ML'') (asc ''Pune''))
     = [asc ''a'', asc ''b'', asc ''c'']
   \<and> key_benefits (parse_text (asc ''Benefits:'' @ [10] @ asc ''pay| growth'') (asc ''AI/ML'')
                     (asc ''Pune''))
     = [asc ''pay'', asc ''growth'']"
proof -
  let ?r = "asc ''Hi'' @ [10] @ asc ''BENEFITS: a | b | c | d'' @ [10]
            @ asc ''Regards | upGrad | Team''"
  have r: "?r = (asc ''Hi'' @ [10]) @ asc ''BENEFITS:'' @ [32] @ asc ''a | b | c | d''
                @ ([10] @ asc ''Regards | upGrad | Team'')"
    by (simp add: asc_def)
  have occ: "map fold_case (asc ''BENEFITS:'') = asc ''BENEFITS:''"
    by (simp add: asc_def fold_case_def)
  have three: "length (asc ''Hi'' @ [10]) = Suc (Suc (Suc 0))" by (simp add: asc_def)
  have first: "\<forall>i < length (asc ''Hi'' @ [10]). \<not> label_at (asc ''BENEFITS:'') ?r i"
    unfolding three All_less_Suc by (simp add: asc_def label_at_def fold_case_def)
  have sp: "set [32] \<subseteq> {9, 10, 13, (32::nat)}" by simp
  have line: "asc ''a | b | c | d'' \<noteq> []" "\<not> is_space (hd (asc ''a | b | c | d''))"
    "10 \<notin> set (asc ''a | b | c | d'')"
    by (simp_all add: asc_def is_space_def)
  have rest: "[10] @ asc ''Regards | upGrad | Team'' = []
              \<or> hd ([10] @ asc ''Regards | upGrad | Team'') = 10"
    by simp
  have items: "py_strip (asc ''a | b | c | d'')
               = join_with [124] [asc ''a '', asc '' b '', asc '' c '', asc '' d'']"
    "[asc ''a '', asc '' b '', asc '' c '', asc '' d''] \<noteq> []"
    "\<forall>it \<in> set [asc ''a '', asc '' b '', asc '' c '', asc '' d'']. 124 \<notin> set it"
    by (simp_all add: asc_def py_strip_def is_space_def join_with_def)
  have stripped: "take 3 (map py_strip [asc ''a '', asc '' b '', asc '' c '', asc '' d''])
                  = [asc ''a'', asc ''b'', asc ''c'']"
    by (simp add: asc_def py_strip_def is_space_def)
  from key_benefits_from_first_label [OF r occ first sp line rest items, of "asc ''AI/ML''" "asc ''Pune''"] stripped
  have a: "key_benefits (parse_text ?r (asc ''AI/ML'') (asc ''Pune''))
           = [asc ''a'', asc ''b'', asc ''c'']"
    by simp
  let ?q = "asc ''Benefits:'' @ [10] @ asc ''pay| growth''"
  have q: "?q = [] @ asc ''Benefits:'' @ [10] @ asc ''pay| growth'' @ []" by simp
  have occ2: "map fold_case (asc ''Benefits:'') = asc ''BENEFITS:''"
    by (simp add: asc_def fold_case_def)
  have first2: "\<forall>i < length ([]::pystr). \<not> label_at (asc ''BENEFITS:'') ?q i" by simp
  have sp2: "set [10] \<subseteq> {9, 10, 13, (32::nat)}" by simp
  have line2: "asc ''pay| growth'' \<noteq> []" "\<not> is_space (hd (asc ''pay| growth''))"
    "10 \<notin> set (asc ''pay| growth'')"
    by (simp_all add: asc_def is_space_def)
  have rest2: "([]::pystr) = [] \<or> hd ([]::pystr) = 10" by simp
  have items2: "py_strip (asc ''pay| growth'') = join_with [124] [asc ''pay'', asc '' growth'']"
    "[asc ''pay'', asc '' growth''] \<noteq> []"
    "\<forall>it \<in> set [asc ''pay'', asc '' growth'']. 124 \<notin> set it"
    by (simp_all add: asc_def py_strip_def is_space_def join_with_def)
  have stripped2: "take 3 (map py_strip [asc ''pay'', asc '' growth''])
                   = [asc ''pay'', asc ''growth'']"
    by (simp add: asc_def py_strip_def is_space_def)
  from key_benefits_from_first_label [OF q occ2 first2 sp2 line2 rest2 items2, of "asc ''AI/ML''" "asc ''Pune''"] stripped2
  have b: "key_benefits (parse_text ?q (asc ''AI/ML'') (asc ''Pune''))
           = [asc ''pay'', asc ''growth'']"
    by simp
  show ?thesis using a b by simp
qed

text \<open>
  The claim as it was stated fails: a response whose body says \<open>benefits:\<close> before its
  BENEFITS line of three items has one entry, taken from the body.
\<close>

theorem earlier_label_counterexample:
  "key_benefits (parse_text (asc ''BODY: Key benefits: great pay'' @ [10]
                             @ asc ''BENEFITS: a | b | c'') (asc ''AI/ML'') (asc ''Pune''))
   = [asc ''great pay'']"
  by (simp add: parse_text_def benefits_match_def match_at_def greedy_line_def asc_def ci_eq_def
        lower_char_def is_space_def py_strip_def Let_def)

text \<open>Every content that the parser builds from a text is within the limits.\<close>

lemma parse_text_limits:
  "length (email_subject (parse_text r course city)) \<le> 60
   \<and> length (social_post (parse_text r course city)) \<le> 280
   \<and> length (key_benefits (parse_text r course city)) \<le> 3"
  by (simp add: parse_text_def Let_def)

text \<open>
  C2. The subject of every generated content has at most 60 characters. The code does
  not keep this on the template path: with no model configured, the course AI/ML and
  the city Chhatrapati Sambhajinagar, the generator returns the untruncated template
  subject, which has 62 characters.
\<close>

theorem fallback_subject_exceeds_limit:
  "map_sum id (\<lambda>c. (email_subject c, length (email_subject c)))
     (generate_campaign_content rt None (asc ''AI/ML'') (asc ''Chhatrapati Sambhajinagar'')
        (asc ''Email'') empty_context)
   = Inr (asc ''Chhatrapati Sambhajinagar'' @ [39] @ asc ''s AI Boom: 1000+ Jobs - Upskill Now!'',
          62)"
proof -
  have s: "email_subject (generate_fallback_content (asc ''AI/ML'')
             (asc ''Chhatrapati Sambhajinagar'') ct empty_context)
           = asc ''Chhatrapati Sambhajinagar'' @ [39]
             @ asc ''s AI Boom: 1000+ Jobs - Upskill Now!''" for ct
    by (simp add: generate_fallback_content_def templates_def empty_context_def
          get_total_positions_def get_companies_hiring_def asc_def str_int_def str_nat.simps)
  have l: "length (asc ''Chhatrapati Sambhajinagar'' @ [39]
             @ asc ''s AI Boom: 1000+ Jobs - Upskill Now!'') = 62"
    by (simp add: asc_def)
  have "\<exists>c. generate_campaign_content rt None (asc ''AI/ML'') (asc ''Chhatrapati Sambhajinagar'')
               (asc ''Email'') empty_context = Inr c
             \<and> email_subject c = asc ''Chhatrapati Sambhajinagar'' @ [39]
                 @ asc ''s AI Boom: 1000+ Jobs - Upskill Now!''"
    by (cases "predict_performance (rnd rt) (asc ''AI/ML'') (asc ''Chhatrapati Sambhajinagar'')
                 (asc ''Email'') empty_context")
       (simp_all add: generate_campaign_content_def try_generate_def s)
  then obtain c where c:
    "generate_campaign_content rt None (asc ''AI/ML'') (asc ''Chhatrapati Sambhajinagar'')
       (asc ''Email'') empty_context = Inr c"
    "email_subject c = asc ''Chhatrapati Sambhajinagar'' @ [39]
       @ asc ''s AI Boom: 1000+ Jobs - Upskill Now!''"
    by blast
  show ?thesis
    unfolding c(1) by (simp only: map_sum.simps c(2) l)
qed

section \<open>Properties of the market data store\<close>

lemma get_city_insights_total: "\<exists>r. get_city_insights pd tbl city = Inr r"
  by (simp add: get_city_insights_def split: option.splits sum.splits)

lemma no_rows_fallback:
  assumes "city_rows pd df city = Inr []"
  shows "get_city_insights pd (Some df) city = Inr (fallback_insights city)"
  using assms by (simp add: get_city_insights_def try_city_insights_def)

lemma raise_fallback:
  assumes "try_city_insights pd df city = Inl e"
  shows "get_city_insights pd (Some df) city = Inr (fallback_insights city)"
  using assms by (simp add: get_city_insights_def)

lemma unknown_city_default:
  assumes "map_of city_multipliers city = None"
  shows "fallback_insights city
         = \<lparr>positions_available = 1000, companies_hiring = 35,
            avg_salary = CStr ([8377] @ asc ''12-18 LPA''),
            top_skills = [asc ''Python'', asc ''Machine Learning'', asc ''Data Analysis''],
            growth_rate = asc ''+15% YoY''\<rparr>"
  using assms by (simp add: fallback_insights_def default_salary_def)

lemma empty_city_unknown: "map_of city_multipliers [] = None"
  by (simp add: city_multipliers_def asc_def)

lemma contains_rows_none:
  assumes "\<forall>r \<in> set rows. \<forall>s. cell_at r col = CStr s \<longrightarrow> str_contains pd city s = Inr False"
  shows "contains_rows pd city col rows = Inr []"
  using assms by (induction rows) (auto split: cell.splits)

lemma no_cell_contains_fallback:
  assumes "\<forall>r \<in> set (df_rows df). \<forall>col s. cell_at r col = CStr s
             \<longrightarrow> str_contains pd city s = Inr False"
  shows "get_city_insights pd (Some df) city = Inr (fallback_insights city)"
proof (cases "find (\<lambda>col. py_lower col = asc ''city'') (df_columns df)")
  case None
  then have "city_rows pd df city = Inl NoCityColumn" by (simp add: city_rows_def)
  then show ?thesis by (simp add: get_city_insights_def try_city_insights_def)
next
  case (Some col)
  have "city_rows pd df city = Inr []"
    unfolding city_rows_def Some option.case Let_def
    by (rule contains_rows_none) (use assms in auto)
  then show ?thesis by (simp add: get_city_insights_def try_city_insights_def)
qed


lemma fallback_table:
  "map (\<lambda>c. (positions_available (fallback_insights c),
               companies_hiring (fallback_insights c)))
     [asc ''Bangalore'', asc ''Mumbai'', asc ''Delhi NCR'', asc ''Hyderabad'', asc ''Chennai'',
      asc ''Pune'', asc ''Ahmedabad'', asc ''Kolkata'']
   = [(2500, 85), (1800, 62), (2200, 78), (1600, 55), (1400, 48), (1200, 42), (800, 28),
      (900, 32)]"
  by (simp add: fallback_insights_def city_multipliers_def asc_def)

lemma fallback_constants:
  "avg_salary (fallback_insights city) = CStr ([8377] @ asc ''12-18 LPA'')
   \<and> top_skills (fallback_insights city)
     = [asc ''Python'', asc ''Machine Learning'', asc ''Data Analysis'']
   \<and> growth_rate (fallback_insights city) = asc ''+15% YoY''"
  by (simp add: fallback_insights_def default_salary_def Let_def)

text \<open>
  C6. For every city string the lookup returns a snapshot and raises nothing: every
  exception of the table processing is caught. Without a table, when no cell of the
  table contains the city, when no row matches and when the processing raises, the
  snapshot is the city's row of the hardcoded table, and for a city that the table does
  not list (the empty string among them) it is the default row: 1000 positions, 35
  companies, the default salary, skills and growth rate.
\<close>

theorem city_lookup_never_raises:
  "(\<exists>r. get_city_insights pd tbl city = Inr r)
   \<and> (tbl = None \<longrightarrow> get_city_insights pd tbl city = Inr (fallback_insights city))
   \<and> (\<forall>df. tbl = Some df
          \<and> (\<forall>r \<in> set (df_rows df). \<forall>col s. cell_at r col = CStr s
                \<longrightarrow> str_contains pd city s = Inr False)
          \<longrightarrow> get_city_insights pd tbl city = Inr (fallback_insights city))
   \<and> (\<forall>df. tbl = Some df \<and> city_rows pd df city = Inr []
          \<longrightarrow> get_city_insights pd tbl city = Inr (fallback_insights city))
   \<and> (\<forall>df e. tbl = Some df \<and> try_city_insights pd df city = Inl e
          \<longrightarrow> get_city_insights pd tbl city = Inr (fallback_insights city))
   \<and> (map_of city_multipliers city = None \<longrightarrow>
        fallback_insights city
        = \<lparr>positions_available = 1000, companies_hiring = 35,
           avg_salary = CStr ([8377] @ asc ''12-18 LPA''),
           top_skills = [asc ''Python'', asc ''Machine Learning'', asc ''Data Analysis''],
           growth_rate = asc ''+15% YoY''\<rparr>)
   \<and> map_of city_multipliers [] = None
   \<and> map (\<lambda>c. (positions_available (fallback_insights c),
                  companies_hiring (fallback_insights c)))
       [asc ''Bangalore'', asc ''Mumbai'', asc ''Delhi NCR'', asc ''Hyderabad'', asc ''Chennai'',
        asc ''Pune'', asc ''Ahmedabad'', asc ''Kolkata'']
     = [(2500, 85), (1800, 62), (2200, 78), (1600, 55), (1400, 48), (1200, 42), (800, 28),
        (900, 32)]
   \<and> avg_salary (fallback_insights city) = CStr ([8377] @ asc ''12-18 LPA'')
   \<and> top_skills (fallback_insights city)
     = [asc ''Python'', asc ''Machine Learning'', asc ''Data Analysis'']
   \<and> growth_rate (fallback_insights city) = asc ''+15% YoY''"
  using get_city_insights_total [of pd tbl city] no_rows_fallback [of pd _ city]
    raise_fallback [of pd _ city] unknown_city_default [of city] empty_city_unknown
    no_cell_contains_fallback [of _ pd city] fallback_table fallback_constants [of city]
  by (auto simp add: get_city_insights_def)

theorem city_lookup_never_raises_witness:
  "get_city_insights \<lparr>str_contains = (\<lambda>p s. Inr (py_in (py_lower p) (py_lower s))),
               int_sum = (\<lambda>cs. Inr 0), series_mode = (\<lambda>cs. Inr [])\<rparr>
       (Some \<lparr>df_columns = [asc ''Company'', asc ''City''],
              df_rows = [[(asc ''Company'', CStr (asc ''Acme'')),
                          (asc ''City'', CStr (asc ''Pune''))]]\<rparr>)
       (asc ''Goa'')
     = Inr \<lparr>positions_available = 1000, companies_hiring = 35,
            avg_salary = CStr ([8377] @ asc ''12-18 LPA''),
            top_skills = [asc ''Python'', asc ''Machine Learning'', asc ''Data Analysis''],
            growth_rate = asc ''+15% YoY''\<rparr>
   \<and> get_city_insights \<lparr>str_contains = (\<lambda>p s. Inr (py_in (py_lower p) (py_lower s))),
               int_sum = (\<lambda>cs. Inr 0), series_mode = (\<lambda>cs. Inr [])\<rparr> None []
     = Inr \<lparr>positions_available = 1000, companies_hiring = 35,
            avg_salary = CStr ([8377] @ asc ''12-18 LPA''),
            top_skills = [asc ''Python'', asc ''Machine Learning'', asc ''Data Analysis''],
            growth_rate = asc ''+15% YoY''\<rparr>"
proof -
  let ?pd = "\<lparr>str_contains = (\<lambda>p s. Inr (py_in (py_lower p) (py_lower s))),
               int_sum = (\<lambda>cs. Inr 0), series_mode = (\<lambda>cs. Inr [])\<rparr>"
  let ?df = "\<lparr>df_columns = [asc ''Company'', asc ''City''],
      df_rows = [[(asc ''Company'', CStr (asc ''Acme'')), (asc ''City'', CStr (asc ''Pune''))]]\<rparr>"
  have acme: "\<not> py_in (py_lower (asc ''Goa'')) (py_lower (asc ''Acme''))"
    and pune: "\<not> py_in (py_lower (asc ''Goa'')) (py_lower (asc ''Pune''))"
    by (simp_all add: py_lower_def lower_char_def asc_def)
  have cells: "\<forall>r \<in> set (df_rows ?df). \<forall>col s. cell_at r col = CStr s
                 \<longrightarrow> str_contains ?pd (asc ''Goa'') s = Inr False"
    using acme pune by (auto simp add: cell_at_def split: if_splits)
  have goa: "map_of city_multipliers (asc ''Goa'') = None"
    by (simp add: city_multipliers_def asc_def)
  from city_lookup_never_raises [of ?pd "Some ?df" "asc ''Goa''"] cells goa
  have a: "get_city_insights ?pd (Some ?df) (asc ''Goa'')
     = Inr \<lparr>positions_available = 1000, companies_hiring = 35,
            avg_salary = CStr ([8377] @ asc ''12-18 LPA''),
            top_skills = [asc ''Python'', asc ''Machine Learning'', asc ''Data Analysis''],
            growth_rate = asc ''+15% YoY''\<rparr>"
    by simp
  from city_lookup_never_raises [of ?pd None "[]"]
  have b: "get_city_insights ?pd None []
     = Inr \<lparr>positions_available = 1000, companies_hiring = 35,
            avg_salary = CStr ([8377] @ asc ''12-18 LPA''),
            top_skills = [asc ''Python'', asc ''Machine Learning'', asc ''Data Analysis''],
            growth_rate = asc ''+15% YoY''\<rparr>"
    by simp
  show ?thesis using a b by simp
qed

section \<open>Properties of content generation\<close>



lemma generate_content_shape:
  assumes "get_city_insights pd (hiring_data eng) city = Inr mi"
  shows "\<exists>prompt. generate_content pd g eng course city campaign_type kw
           = (case try_generate_content g eng prompt course city (positions_available mi)
                     (companies_hiring mi) campaign_type kw of
                Inr generated \<Rightarrow> Inr generated
              | Inl e \<Rightarrow>
                  Inr (generate_fallback_content_server course city (positions_available mi)
                         (companies_hiring mi) (tone_scale kw) (variant_number kw)
                         campaign_type))"
  unfolding generate_content_def assms sum.case Let_def by (rule exI) (rule refl)


lemma fallback_mode_content:
  assumes "gemini_api_key eng = None \<or> gemini_api_key eng = Some []"
      and "get_city_insights pd (hiring_data eng) city = Inr mi"
  shows "generate_content pd g eng course city campaign_type kw
         = Inr (generate_fallback_content_server course city (positions_available mi)
                  (companies_hiring mi) (tone_scale kw) (variant_number kw) campaign_type)"
proof -
  have "try_generate_content g eng prompt course city (positions_available mi)
          (companies_hiring mi) campaign_type kw
        = Inr (generate_fallback_content_server course city (positions_available mi)
                 (companies_hiring mi) (tone_scale kw) (variant_number kw) campaign_type)"
    for prompt
    using assms(1) by (auto simp add: try_generate_content_def)
  then show ?thesis
    using generate_content_shape [OF assms(2), of g course campaign_type kw] by auto
qed


lemma pune_insights:
  "get_city_insights pd None (asc ''Pune'')
   = Inr \<lparr>positions_available = 1200, companies_hiring = 42,
          avg_salary = CStr default_salary,
          top_skills = [asc ''Python'', asc ''Machine Learning'', asc ''Data Analysis''],
          growth_rate = asc ''+15% YoY''\<rparr>"
  by (simp add: get_city_insights_def fallback_insights_def city_multipliers_def asc_def)




section \<open>Properties of the heuristic predictor\<close>












section \<open>Properties of the template fallback\<close>

text \<open>
  C4. The tone is a function of \<open>tone_scale\<close> alone, with three bands: at most 3 is
  the formal band with low urgency, at least 8 the urgent band with high urgency, and
  every value between them the balanced band with moderate urgency; the fallback picks
  its template by the same bands. The three bands are different.
\<close>

theorem tone_bands:
  "(scale \<le> 3 \<longrightarrow>
      tone_settings scale = (asc ''professional, formal, and informative'', asc ''low urgency'')
      \<and> generate_fallback_content_server course city positions companies scale v campaign_type
        = formal_content course city positions companies (pick (hooks course city positions) v)
            (pick value_props v))
   \<and> (8 \<le> scale \<longrightarrow>
      tone_settings scale
        = (asc ''urgent, compelling, and action-oriented with FOMO elements'', asc ''high urgency'')
      \<and> generate_fallback_content_server course city positions companies scale v campaign_type
        = urgent_content course city positions companies (pick (hooks course city positions) v)
            (pick value_props v) (pick urgency_elements v))
   \<and> (3 < scale \<and> scale < 8 \<longrightarrow>
      tone_settings scale
        = (asc ''engaging, motivational, and persuasive'', asc ''moderate urgency'')
      \<and> generate_fallback_content_server course city positions companies scale v campaign_type
        = balanced_content course city positions companies (pick (hooks course city positions) v)
            (pick value_props v) (pick urgency_elements v))
   \<and> tone_settings 3 \<noteq> tone_settings 4 \<and> tone_settings 7 \<noteq> tone_settings 8
   \<and> tone_settings 3 \<noteq> tone_settings 8"
  by (simp add: tone_settings_def generate_fallback_content_server_def Let_def)
     (simp add: asc_def)

theorem tone_bands_witness:
  "map tone_settings [1, 2, 3, 4, 5, 6, 7, 8, 9, 10]
   = [(asc ''professional, formal, and informative'', asc ''low urgency''),
      (asc ''professional, formal, and informative'', asc ''low urgency''),
      (asc ''professional, formal, and informative'', asc ''low urgency''),
      (asc ''engaging, motivational, and persuasive'', asc ''moderate urgency''),
      (asc ''engaging, motivational, and persuasive'', asc ''moderate urgency''),
      (asc ''engaging, motivational, and persuasive'', asc ''moderate urgency''),
      (asc ''engaging, motivational, and persuasive'', asc ''moderate urgency''),
      (asc ''urgent, compelling, and action-oriented with FOMO elements'', asc ''high urgency''),
      (asc ''urgent, compelling, and action-oriented with FOMO elements'', asc ''high urgency''),
      (asc ''urgent, compelling, and action-oriented with FOMO elements'', asc ''high urgency'')]"
  using tone_bands [of 1] tone_bands [of 2] tone_bands [of 3] tone_bands [of 4] tone_bands [of 5] tone_bands [of 6] tone_bands [of 7] tone_bands [of 8]
    tone_bands [of 9] tone_bands [of 10]
  by simp

lemma pick_hooks_1:
  "pick (hooks course city positions) 1
   = 128188 # (asc '' '' @ city @ asc '' professionals: Your '' @ course @ asc '' moment is NOW!'')"
  by (simp add: pick_def hooks_def)

lemma pick_hooks_2:
  "pick (hooks course city positions) 2
   = 9889 # (asc '' '' @ str_int positions @ asc ''+ '' @ course
     @ asc '' opportunities just opened in '' @ city)"
  by (simp add: pick_def hooks_def)

lemma asc_space: "asc '' '' = [32]"
  by (simp add: asc_def)

lemma formal_content_hook:
  "x \<noteq> y \<Longrightarrow> formal_content course city positions companies (x # h) v
              \<noteq> formal_content course city positions companies (y # h') v'"
  by (simp only: formal_content_def append_Cons list.inject simp_thms not_False_eq_True)

lemma urgent_content_hook:
  "x \<noteq> y \<Longrightarrow> urgent_content course city positions companies (x # h) v u
              \<noteq> urgent_content course city positions companies (y # h') v' u'"
  by (simp only: urgent_content_def asc_space append_Cons append_Nil list.inject simp_thms
        not_False_eq_True)

lemma balanced_content_hook:
  "x \<noteq> y \<Longrightarrow> balanced_content course city positions companies (x # h) v u
              \<noteq> balanced_content course city positions companies (y # h') v' u'"
  by (simp only: balanced_content_def append_Cons list.inject simp_thms not_False_eq_True)

lemma content_differ:
  "generate_fallback_content_server course city positions companies scale 1 campaign_type
   \<noteq> generate_fallback_content_server course city positions companies scale 2 campaign_type"
proof -
  have ne: "(128188::nat) \<noteq> 9889" by simp
  show ?thesis
    unfolding generate_fallback_content_server_def Let_def pick_hooks_1 pick_hooks_2
    using formal_content_hook [OF ne] urgent_content_hook [OF ne] balanced_content_hook [OF ne]
    by (cases "scale \<le> 3"; cases "scale \<ge> 8") simp_all
qed

lemma value_props_differ:
  "pick value_props 1 = asc ''Job placement assistance with 500+ hiring partners''
   \<and> pick value_props 2 = asc ''Learn from industry leaders and practitioners''
   \<and> pick value_props 1 \<noteq> pick value_props 2"
  by (simp add: pick_def value_props_def) (simp add: asc_def)


text \<open>
  C3. In fallback mode (no credential) the generated text is the template content of
  course, city, positions, companies, tone scale, variant number and campaign type and
  of nothing else: it does not depend on the external service, so two runs with the same
  seven values give the same text. Variant 1 and variant 2 select different hooks and
  different value propositions, and their contents differ.
\<close>

theorem fallback_deterministic_variants_differ:
  "((gemini_api_key eng = None \<or> gemini_api_key eng = Some [])
      \<and> get_city_insights pd (hiring_data eng) city = Inr mi \<longrightarrow>
      generate_content pd g eng course city campaign_type kw
        = Inr (generate_fallback_content_server course city (positions_available mi)
                 (companies_hiring mi) (tone_scale kw) (variant_number kw) campaign_type)
      \<and> generate_content pd g eng course city campaign_type kw
        = generate_content pd g' eng course city campaign_type kw)
   \<and> pick (hooks course city positions) 1 \<noteq> pick (hooks course city positions) 2
   \<and> pick value_props 1 \<noteq> pick value_props 2
   \<and> generate_fallback_content_server course city positions companies scale 1 campaign_type
     \<noteq> generate_fallback_content_server course city positions companies scale 2 campaign_type"
proof -
  have h: "pick (hooks course city positions) 1 \<noteq> pick (hooks course city positions) 2"
    by (simp add: pick_hooks_1 pick_hooks_2)
  show ?thesis
    using h value_props_differ content_differ [of course city positions companies scale campaign_type]
      fallback_mode_content [of eng pd city mi _ course campaign_type kw]
    by metis
qed

theorem fallback_deterministic_variants_differ_witness:
  "get_city_insights
       \<lparr>str_contains = (\<lambda>p s. Inr False), int_sum = (\<lambda>cs. Inr 0), series_mode = (\<lambda>cs. Inr [])\<rparr>
       None (asc ''Pune'')
     = Inr \<lparr>positions_available = 1200, companies_hiring = 42,
          avg_salary = CStr default_salary,
          top_skills = [asc ''Python'', asc ''Machine Learning'', asc ''Data Analysis''],
          growth_rate = asc ''+15% YoY''\<rparr>
   \<and> generate_content
       \<lparr>str_contains = (\<lambda>p s. Inr False), int_sum = (\<lambda>cs. Inr 0), series_mode = (\<lambda>cs. Inr [])\<rparr>
       \<lparr>client_setup = None, generate = (\<lambda>prompt. Inr (asc ''generated text''))\<rparr>
       \<lparr>gemini_api_key = None, hiring_data = None\<rparr>
       (asc ''AI/ML'') (asc ''Pune'') (asc ''email'') default_kwargs
     = Inr (generate_fallback_content_server (asc ''AI/ML'') (asc ''Pune'') 1200 42 5 1
              (asc ''email''))"
proof -
  let ?pd = "\<lparr>str_contains = (\<lambda>p s. Inr False), int_sum = (\<lambda>cs. Inr 0),
              series_mode = (\<lambda>cs. Inr [])\<rparr>"
  let ?g = "\<lparr>client_setup = None, generate = (\<lambda>prompt. Inr (asc ''generated text''))\<rparr>"
  let ?eng = "\<lparr>gemini_api_key = None, hiring_data = None\<rparr>"
  let ?mi = "\<lparr>positions_available = 1200, companies_hiring = 42,
          avg_salary = CStr default_salary,
          top_skills = [asc ''Python'', asc ''Machine Learning'', asc ''Data Analysis''],
          growth_rate = asc ''+15% YoY''\<rparr>"
  have k: "gemini_api_key ?eng = None \<or> gemini_api_key ?eng = Some []" by simp
  have i: "get_city_insights ?pd (hiring_data ?eng) (asc ''Pune'') = Inr ?mi"
    using pune_insights [of ?pd] by simp
  from fallback_deterministic_variants_differ [where eng = ?eng and pd = ?pd and city = "asc ''Pune''" and g = ?g and g' = ?g
      and mi = ?mi and course = "asc ''AI/ML''" and campaign_type = "asc ''email''"
      and kw = default_kwargs and positions = 1200 and companies = 42 and scale = 5] k i
  have "generate_content ?pd ?g ?eng (asc ''AI/ML'') (asc ''Pune'') (asc ''email'') default_kwargs
        = Inr (generate_fallback_content_server (asc ''AI/ML'') (asc ''Pune'')
                 (positions_available ?mi) (companies_hiring ?mi) (tone_scale default_kwargs)
                 (variant_number default_kwargs) (asc ''email''))"
    by blast
  then have "generate_content ?pd ?g ?eng (asc ''AI/ML'') (asc ''Pune'') (asc ''email'')
               default_kwargs
        = Inr (generate_fallback_content_server (asc ''AI/ML'') (asc ''Pune'') 1200 42 5 1
                 (asc ''email''))"
    by (simp add: default_kwargs_def)
  then show ?thesis using pune_insights [of ?pd] by simp
qed

lemma pick_mod: "pick pool (n + int (length pool)) = pick pool n"
  by (simp add: pick_def)

lemma length_hooks: "length (hooks course city positions) = 5"
  by (simp add: hooks_def)

lemma length_value_props: "length value_props = 5"
  by (simp add: value_props_def)

lemma length_urgency_elements: "length urgency_elements = 5"
  by (simp add: urgency_elements_def)

lemma fallback_period:
  "generate_fallback_content_server course city positions companies scale (n + 5) campaign_type
   = generate_fallback_content_server course city positions companies scale n campaign_type"
proof -
  have h: "pick (hooks course city positions) (n + 5) = pick (hooks course city positions) n"
    using pick_mod [of "hooks course city positions" n] by (simp add: length_hooks)
  have v: "pick value_props (n + 5) = pick value_props n"
    using pick_mod [of value_props n] by (simp add: length_value_props)
  have u: "pick urgency_elements (n + 5) = pick urgency_elements n"
    using pick_mod [of urgency_elements n] by (simp add: length_urgency_elements)
  show ?thesis
    by (simp only: generate_fallback_content_server_def h v u)
qed

lemma fallback_mod:
  "generate_fallback_content_server course city positions companies scale n campaign_type
   = generate_fallback_content_server course city positions companies scale (n mod 5) campaign_type"
  by (simp add: generate_fallback_content_server_def pick_def length_hooks length_value_props
        length_urgency_elements)


text \<open>
  C10. The three pools have 5 entries each and the index is the variant number modulo
  5, so the fallback content of variant \<open>n + 5\<close> is that of variant \<open>n\<close>, and the
  contents of all variant numbers together are at most 5.
\<close>

theorem fallback_variants_period_five:
  "generate_fallback_content_server course city positions companies scale (n + 5) campaign_type
     = generate_fallback_content_server course city positions companies scale n campaign_type
   \<and> finite (range (\<lambda>v. generate_fallback_content_server course city positions companies scale v
                        campaign_type))
   \<and> card (range (\<lambda>v. generate_fallback_content_server course city positions companies scale v
                        campaign_type)) \<le> 5"
proof -
  let ?f = "\<lambda>v. generate_fallback_content_server course city positions companies scale v
                 campaign_type"
  have sub: "range ?f \<subseteq> ?f ` {0..4}"
  proof
    fix x assume "x \<in> range ?f"
    then obtain v where x: "x = ?f v" by blast
    have "?f v = ?f (v mod 5)" by (rule fallback_mod)
    moreover have "v mod 5 \<in> {0..4}" by simp
    ultimately show "x \<in> ?f ` {0..4}" using x by blast
  qed
  have fin: "finite (?f ` {0..4::int})" by simp
  have "card (?f ` {0..4::int}) \<le> card {0..4::int}" by (rule card_image_le) simp
  then have c5: "card (?f ` {0..4::int}) \<le> 5" by simp
  have "card (range ?f) \<le> card (?f ` {0..4::int})" by (rule card_mono[OF fin sub])
  with c5 have "card (range ?f) \<le> 5" by linarith
  moreover have "finite (range ?f)" by (rule finite_subset[OF sub fin])
  ultimately show ?thesis using fallback_period by blast
qed

section \<open>Properties of localization\<close>

lemma asc_bang: "asc ''!'' = [33]"
  by (simp add: asc_def)

lemma replace_bang:
  "replace_from [33] new 0 s = concat (map (\<lambda>c. if c = 33 then new else [c]) s)"
  by (induction s) simp_all

lemma startswith_iff: "startswith s p \<longleftrightarrow> (\<exists>post. s = p @ post)"
  by (induction s p rule: startswith.induct) auto

lemma py_in_iff: "py_in sub s \<longleftrightarrow> (\<exists>pre post. s = pre @ sub @ post)"
proof (induction s)
  case Nil
  then show ?case by auto
next
  case (Cons c cs)
  show ?case
  proof
    assume "py_in sub (c # cs)"
    then consider "startswith (c # cs) sub" | "py_in sub cs" by auto
    then show "\<exists>pre post. c # cs = pre @ sub @ post"
    proof cases
      case 1
      then obtain post where "c # cs = sub @ post" using startswith_iff by blast
      then have "c # cs = [] @ sub @ post" by simp
      then show ?thesis by blast
    next
      case 2
      then obtain pre post where "cs = pre @ sub @ post" using Cons.IH by blast
      then have "c # cs = (c # pre) @ sub @ post" by simp
      then show ?thesis by blast
    qed
  next
    assume "\<exists>pre post. c # cs = pre @ sub @ post"
    then obtain pre post where e: "c # cs = pre @ sub @ post" by blast
    show "py_in sub (c # cs)"
    proof (cases pre)
      case Nil
      then have "startswith (c # cs) sub" using e startswith_iff by auto
      then show ?thesis by simp
    next
      case (Cons x xs)
      then have "cs = xs @ sub @ post" using e by simp
      then have "py_in sub cs" using Cons.IH by blast
      then show ?thesis by simp
    qed
  qed
qed

lemma localize_subject_eq:
  "localize_subject subject ctx
   = documented_subject act_fast_every subject (get_str ctx ''nickname'' [])
       (\<not> (\<exists>pre post. subject = pre @ get_str ctx ''nickname'' [] @ post))
       (py_in (asc ''high competition'') (py_lower (get_str ctx ''market_sentiment'' [])))"
proof -
  have e: "(\<exists>pre post. subject = pre @ get_str ctx ''nickname'' [] @ post)
           \<longleftrightarrow> py_in (get_str ctx ''nickname'' []) subject"
    by (simp add: py_in_iff)
  have "subject = [] @ [] @ subject" by simp
  then have n: "py_in [] subject" unfolding py_in_iff by blast
  show ?thesis
    unfolding e
    using n
    by (auto simp add: localize_subject_def documented_subject_def act_fast_every_def
          py_replace_def asc_bang replace_bang Let_def)
qed

lemma subject_table:
  "map (\<lambda>(city, ctx). (city, get_str ctx ''nickname'' [],
          py_in (asc ''high competition'') (py_lower (get_str ctx ''market_sentiment'' []))))
     city_contexts
   = [(asc ''Bangalore'', asc ''Silicon Valley of India'', True),
      (asc ''Mumbai'', asc ''Financial Capital of India'', False),
      (asc ''Delhi NCR'', asc ''Corporate Hub of India'', False),
      (asc ''Hyderabad'', asc ''Cyberabad'', False),
      (asc ''Chennai'', asc ''Detroit of India'', False),
      (asc ''Pune'', asc ''Oxford of the East'', False),
      (asc ''Ahmedabad'', asc ''Manchester of India'', False),
      (asc ''Kolkata'', asc ''Cultural Capital of India'', False)]"
  by (simp add: city_contexts_def get_str_def py_lower_def lower_char_def asc_def)

lemma distinct_cities: "distinct (map fst city_contexts)"
  by (simp add: city_contexts_def asc_def)


text \<open>
  C8, as amended. For every city of the localization table, with its nickname and
  with whether its market sentiment mentions high competition (Bangalore only):
  the nickname is appended after \<open>" | "\<close> when the subject does not contain it, then,
  for high competition, every \<open>!\<close> of the subject becomes \<open>" - Act Fast!"\<close>, and last the
  result is cut to 60 characters.
\<close>

theorem localize_subject_every_bang:
  "(city, nickname, high_competition)
     \<in> set [(asc ''Bangalore'', asc ''Silicon Valley of India'', True),
            (asc ''Mumbai'', asc ''Financial Capital of India'', False),
            (asc ''Delhi NCR'', asc ''Corporate Hub of India'', False),
            (asc ''Hyderabad'', asc ''Cyberabad'', False),
            (asc ''Chennai'', asc ''Detroit of India'', False),
            (asc ''Pune'', asc ''Oxford of the East'', False),
            (asc ''Ahmedabad'', asc ''Manchester of India'', False),
            (asc ''Kolkata'', asc ''Cultural Capital of India'', False)]
   \<longrightarrow> (\<exists>ctx. map_of city_contexts city = Some ctx
          \<and> localize_subject subject ctx
            = documented_subject act_fast_every subject nickname
                (\<not> (\<exists>pre post. subject = pre @ nickname @ post)) high_competition
          \<and> length (localize_subject subject ctx) \<le> 60)"
proof
  assume "(city, nickname, high_competition)
     \<in> set [(asc ''Bangalore'', asc ''Silicon Valley of India'', True),
            (asc ''Mumbai'', asc ''Financial Capital of India'', False),
            (asc ''Delhi NCR'', asc ''Corporate Hub of India'', False),
            (asc ''Hyderabad'', asc ''Cyberabad'', False),
            (asc ''Chennai'', asc ''Detroit of India'', False),
            (asc ''Pune'', asc ''Oxford of the East'', False),
            (asc ''Ahmedabad'', asc ''Manchester of India'', False),
            (asc ''Kolkata'', asc ''Cultural Capital of India'', False)]"
  then have "(city, nickname, high_competition)
     \<in> set (map (\<lambda>(city, ctx). (city, get_str ctx ''nickname'' [],
          py_in (asc ''high competition'') (py_lower (get_str ctx ''market_sentiment'' []))))
        city_contexts)"
    by (simp only: subject_table)
  then obtain ctx where ctx: "(city, ctx) \<in> set city_contexts"
      and n: "nickname = get_str ctx ''nickname'' []"
      and h: "high_competition
              = py_in (asc ''high competition'') (py_lower (get_str ctx ''market_sentiment'' []))"
    by auto
  have m: "map_of city_contexts city = Some ctx"
    using distinct_cities ctx by (rule map_of_is_SomeI)
  have e: "localize_subject subject ctx
            = documented_subject act_fast_every subject nickname
                (\<not> (\<exists>pre post. subject = pre @ nickname @ post)) high_competition"
    unfolding n h by (rule localize_subject_eq)
  have l: "length (localize_subject subject ctx) \<le> 60"
    by (simp add: localize_subject_def Let_def)
  show "\<exists>ctx. map_of city_contexts city = Some ctx
          \<and> localize_subject subject ctx
            = documented_subject act_fast_every subject nickname
                (\<not> (\<exists>pre post. subject = pre @ nickname @ post)) high_competition
          \<and> length (localize_subject subject ctx) \<le> 60"
    using m e l by blast
qed

lemma nickname_absent:
  "\<not> (\<exists>pre post. asc ''Hi! Go!'' = pre @ asc ''Silicon Valley of India'' @ post)"
proof -
  have "\<not> py_in (asc ''Silicon Valley of India'') (asc ''Hi! Go!'')"
    by (simp add: asc_def)
  then show ?thesis by (simp add: py_in_iff)
qed

theorem localize_subject_every_bang_witness:
  "\<exists>ctx. map_of city_contexts (asc ''Bangalore'') = Some ctx
     \<and> localize_subject (asc ''Hi! Go!'') ctx
       = asc ''Hi - Act Fast! Go - Act Fast! | Silicon Valley of India''"
proof -
  have v: "documented_subject act_fast_every (asc ''Hi! Go!'') (asc ''Silicon Valley of India'')
             True True
           = asc ''Hi - Act Fast! Go - Act Fast! | Silicon Valley of India''"
    by (simp add: documented_subject_def act_fast_every_def asc_def)
  from localize_subject_every_bang [of "asc ''Bangalore''" "asc ''Silicon Valley of India''" True "asc ''Hi! Go!''"]
  obtain ctx where "map_of city_contexts (asc ''Bangalore'') = Some ctx"
    and "localize_subject (asc ''Hi! Go!'') ctx
         = documented_subject act_fast_every (asc ''Hi! Go!'') (asc ''Silicon Valley of India'')
             (\<not> (\<exists>pre post. asc ''Hi! Go!'' = pre @ asc ''Silicon Valley of India'' @ post))
             True"
    by auto
  then show ?thesis using nickname_absent v by auto
qed

text \<open>
  The claim as it was stated fails: with two \<open>!\<close> in the subject, both are rewritten,
  not the first only.
\<close>

theorem first_bang_only_counterexample:
  "map_option (localize_subject (asc ''Hi! Go!'')) (map_of city_contexts (asc ''Bangalore''))
     = Some (asc ''Hi - Act Fast! Go - Act Fast! | Silicon Valley of India'')
   \<and> documented_subject act_fast_first (asc ''Hi! Go!'') (asc ''Silicon Valley of India'')
       True True
     = asc ''Hi - Act Fast! Go! | Silicon Valley of India''
   \<and> map_option (localize_subject (asc ''Hi! Go!'')) (map_of city_contexts (asc ''Bangalore''))
     \<noteq> Some (documented_subject act_fast_first (asc ''Hi! Go!'')
                (asc ''Silicon Valley of India'') True True)"
proof -
  have a: "map_option (localize_subject (asc ''Hi! Go!''))
             (map_of city_contexts (asc ''Bangalore''))
           = Some (asc ''Hi - Act Fast! Go - Act Fast! | Silicon Valley of India'')"
    by (simp add: city_contexts_def localize_subject_def get_str_def py_lower_def lower_char_def
          py_replace_def asc_def)
  have b: "documented_subject act_fast_first (asc ''Hi! Go!'') (asc ''Silicon Valley of India'')
             True True
           = asc ''Hi - Act Fast! Go! | Silicon Valley of India''"
    by (simp add: documented_subject_def asc_def)
  have c: "asc ''Hi - Act Fast! Go - Act Fast! | Silicon Valley of India''
           \<noteq> asc ''Hi - Act Fast! Go! | Silicon Valley of India''"
    by (simp add: asc_def)
  show ?thesis unfolding a b using c by simp
qed

lemma no_city_key:
  "list_all (\<lambda>ctx. map_of (str_items ctx) ''city'' = None) (map snd city_contexts)"
  by (simp add: city_contexts_def)

lemma nonempty_contexts:
  "list_all (\<lambda>ctx. str_items ctx \<noteq> []) (map snd city_contexts)"
  by (simp add: city_contexts_def)

lemma context_in_table:
  assumes "map_of city_contexts city = Some ctx"
  shows "ctx \<in> set (map snd city_contexts)"
  using map_of_SomeD [OF assms] by force

lemma bangalore_entry: "\<exists>ctx. map_of city_contexts (asc ''Bangalore'') = Some ctx"
  by (simp add: city_contexts_def)

lemma regional_not_available:
  assumes "map_of city_contexts city = Some ctx"
  shows "create_regional_version c ctx = not_available"
proof -
  have "map_of (str_items ctx) ''city'' = None"
    using no_city_key context_in_table [OF assms] by (auto simp add: list_all_iff)
  then have "get_str ctx ''city'' [] = []" by (simp add: get_str_def)
  moreover have "map_of regional_languages [] = None"
    by (simp add: regional_languages_def asc_def)
  ultimately show ?thesis by (simp add: create_regional_version_def)
qed

lemma localized_regional_version:
  assumes "map_of city_contexts city = Some ctx"
  shows "regional_version (localize_content alnum c city) = Some not_available"
proof -
  have "str_items ctx \<noteq> []"
    using nonempty_contexts context_in_table [OF assms] by (auto simp add: list_all_iff)
  then show ?thesis
    using assms regional_not_available [OF assms] by (simp add: localize_content_def)
qed


text \<open>
  C9. A city with a row in the phrase table gets the regional sentence of its phrases.
  The code does not do this: the context dictionaries have no \<open>city\<close> key, the phrase
  table is looked up with the empty string, and Bangalore, which has a row, gets the
  "not available" marker instead of its sentence.
\<close>

theorem regional_version_not_available:
  "regional_version (localize_content alnum c (asc ''Bangalore''))
     = Some (asc ''Regional version not available for this city.'')
   \<and> regional_sentence (asc ''Bangalore'') (asc ''Silicon Valley of India'')
     = Some (asc ''Namaskara! Silicon Valley of India mein Avakasha hai! ''
             @ asc ''Apna Vyavasaya transform karo aur Safalate pao upGrad ke saath!'')"
proof -
  obtain ctx where h: "map_of city_contexts (asc ''Bangalore'') = Some ctx"
    using bangalore_entry by blast
  have a: "regional_version (localize_content alnum c (asc ''Bangalore'')) = Some not_available"
    by (rule localized_regional_version [OF h])
  have b: "regional_sentence (asc ''Bangalore'') (asc ''Silicon Valley of India'')
     = Some (asc ''Namaskara! Silicon Valley of India mein Avakasha hai! ''
             @ asc ''Apna Vyavasaya transform karo aur Safalate pao upGrad ke saath!'')"
    by (simp add: regional_sentence_def regional_languages_def phrase_def asc_def)
  show ?thesis using a b by (simp add: not_available_def)
qed

end
